theory Spec2Isabelle
  imports Complex_Main
begin

section \<open>Madlan property search: a shallow embedding\<close>

text \<open>
  The development follows \<^verbatim>\<open>src/mcp_server.py\<close> (class \<^verbatim>\<open>NadlanPropertyServer\<close> and
  \<^verbatim>\<open>main\<close>) and the function \<^verbatim>\<open>classify_transaction_type\<close> of \<^verbatim>\<open>install.py\<close>.

  Conventions of the embedding:
  \<^item> The travel time and the price per square metre are computed in double precision: a
    product or quotient is the exact one rounded to the nearest double (\<open>fl_round\<close>), and a
    float can be NaN or infinite (\<open>py_float\<close>).
  \<^item> In the search (filters, match score, statistics) the floats are read as real numbers
    and every arithmetic step is exact: prices, areas, room counts and distances are of type
    \<open>real\<close>. What is proved there are ranges, orderings and the choice of the frames, not
    the last digit of a score: where the double sum of the score components falls on the other
    side of a tie of \<^verbatim>\<open>round(x, 1)\<close> than the exact sum, the code's score differs from the
    model's by a tenth.
  \<^item> Python strings are \<open>string\<close>, a text outside ASCII being its UTF-8 bytes.
  \<^item> An exception is a value: functions that can raise return \<open>py_error + 'a\<close>.
\<close>

subsection \<open>Python numerics\<close>

datatype py_error =
    ZeroDivisionError
  | ValueError
  | OverflowError
  | KeyError string
  | AttributeError string
  | RecursionError string
  | Raised string

text \<open>\<^verbatim>\<open>int(x)\<close> on a finite float truncates towards zero.\<close>

definition py_int :: "real \<Rightarrow> int" where
  "py_int x = (if 0 \<le> x then \<lfloor>x\<rfloor> else \<lceil>x\<rceil>)"

text \<open>Truthiness of an optional number of the search: \<^verbatim>\<open>None\<close> and zero are false.\<close>

definition truthy_num :: "real option \<Rightarrow> bool" where
  "truthy_num v = (case v of None \<Rightarrow> False | Some x \<Rightarrow> x \<noteq> 0)"

subsection \<open>Double precision\<close>

text \<open>
  Rounding to the nearest integer, a tie going to the even neighbour.
\<close>

definition round_half_even :: "real \<Rightarrow> int" where
  "round_half_even x =
     (let f = \<lfloor>x\<rfloor>; r = x - of_int f
      in if r < 1/2 then f else if 1/2 < r then f + 1 else if even f then f else f + 1)"



text \<open>A Python float: a finite double, an infinity or NaN.\<close>

datatype py_float = Finite real | PlusInf | MinusInf | NaN






subsection \<open>\<^verbatim>\<open>install.py\<close>: classification of a listing by its price\<close>

text \<open>
  \<^verbatim>\<open>
  def classify_transaction_type(price):
      if price < 100000:  # 5 figures
          return 'To Let'
      else:  # 6+ figures
          return 'For Sale'
  \<close>
\<close>

definition classify_transaction_type :: "real \<Rightarrow> string" where
  "classify_transaction_type price = (if price < 100000 then ''To Let'' else ''For Sale'')"

subsection \<open>Price per square metre\<close>



subsection \<open>Travel time on foot\<close>




subsection \<open>Python strings\<close>

text \<open>
  \<^verbatim>\<open>str.lower\<close> on the ASCII letters; a character of another alphabet is one or more bytes
  of its UTF-8 encoding and is left as it is (Hebrew has no case). The texts in scope are
  ASCII and Hebrew: a cased letter outside ASCII, which \<^verbatim>\<open>str.lower\<close> would map (KELVIN SIGN
  to \<^verbatim>\<open>k\<close>), is not modelled.
\<close>

definition char_lower :: "char \<Rightarrow> char" where
  "char_lower c =
     (case map_of (zip ''ABCDEFGHIJKLMNOPQRSTUVWXYZ'' ''abcdefghijklmnopqrstuvwxyz'') c of
        None \<Rightarrow> c
      | Some l \<Rightarrow> l)"

definition str_lower :: "string \<Rightarrow> string" where
  "str_lower s = map char_lower s"

primrec startswith :: "string \<Rightarrow> string \<Rightarrow> bool" where
  "startswith s [] = True"
| "startswith s (k # ks) = (case s of [] \<Rightarrow> False | c # cs \<Rightarrow> c = k \<and> startswith cs ks)"

text \<open>\<^verbatim>\<open>keyword in text\<close>: the keyword occurs as a contiguous piece of the text.\<close>

primrec py_in :: "string \<Rightarrow> string \<Rightarrow> bool" where
  "py_in k [] = (k = [])"
| "py_in k (c # cs) = (startswith (c # cs) k \<or> py_in k cs)"

text \<open>\<^verbatim>\<open>any(keyword in text for keyword in keywords)\<close>\<close>

definition any_in :: "string list \<Rightarrow> string \<Rightarrow> bool" where
  "any_in keywords text = list_ex (\<lambda>k. py_in k text) keywords"

text \<open>Truthiness of an optional string: \<^verbatim>\<open>None\<close> and the empty string are false.\<close>

definition truthy_str :: "string option \<Rightarrow> bool" where
  "truthy_str v = (case v of None \<Rightarrow> False | Some s \<Rightarrow> s \<noteq> [])"

subsection \<open>Data model\<close>

text \<open>
  One row of the data frame \<^verbatim>\<open>properties_df\<close>. The columns are those the modelled functions
  read; \<^verbatim>\<open>publish_date\<close> is the instant \<^verbatim>\<open>pd.to_datetime\<close> makes of the cell, in seconds,
  or \<open>None\<close> where \<^verbatim>\<open>pd.to_datetime\<close> raises (a text that is no date). A missing cell, of
  which \<^verbatim>\<open>pd.to_datetime\<close> makes \<^verbatim>\<open>NaT\<close> without raising, is not a value of this type: rows
  are taken to carry a date or a text. The column \<^verbatim>\<open>madlan_match_score\<close> exists only on
  the frames a search builds: \<open>None\<close> is its absence.
\<close>

record listing =
  publish_date :: "int option"
  property_rooms :: real
  property_price :: real
  property_builded_area :: real
  street :: string
  transaction_type :: string
  bulletin_has_parking :: bool
  bulletin_has_elevator :: bool
  bulletin_has_balconies :: bool
  nearest_school_distance_km :: real
  nearest_clinic_distance_km :: real
  madlan_match_score :: "real option"

text \<open>
  The keyword arguments of \<^verbatim>\<open>search_properties\<close>, typed as the tool's input schema types
  them. An absent key is \<open>None\<close> (\<open>False\<close> for the boolean flags, which the code only
  tests for truthiness).
\<close>

record kwargs =
  kw_query_text :: "string option"
  kw_transaction_type :: "string option"
  kw_max_price :: "real option"
  kw_min_price :: "real option"
  kw_rooms :: "real option"
  kw_near_schools :: bool
  kw_near_medical :: bool
  kw_has_parking :: bool
  kw_has_elevator :: bool
  kw_has_balcony :: bool
  kw_limit :: "int option"

datatype format_mode = Data | Listings

record intent =
  format_mode :: format_mode
  mentioned_amenities :: "string list"
  is_listing_query :: bool
  is_data_query :: bool
  detected_transaction :: "string option"

subsection \<open>\<^verbatim>\<open>detect_query_intent_and_amenities\<close>\<close>

definition listing_indicators :: "string list" where
  "listing_indicators =
     [''show me'', ''find me'', ''list'', ''properties'', ''apartments'', ''flats'',
      ''top'', ''best'', ''recommendations'', ''options'', ''listings'',
      ''search for'', ''looking for'', ''want to see'']"

definition data_indicators :: "string list" where
  "data_indicators =
     [''analyze'', ''analysis'', ''statistics'', ''stats'', ''average'', ''compare'',
      ''market data'', ''trends'', ''price analysis'', ''how many'', ''count'',
      ''overview'', ''summary'', ''what is'', ''tell me about'']"

text \<open>The Hebrew keywords are written as the bytes of their UTF-8 encoding.\<close>

definition amenity_patterns :: "(string \<times> string list) list" where
  "amenity_patterns =
     [(''schools'',
       [''school'', ''schools'', ''education'', ''elementary'', ''high school'',
        ''kindergarten'',
        [CHR 0xD7, CHR 0x91, CHR 0xD7, CHR 0x99, CHR 0xD7, CHR 0xAA, CHR 0x20, CHR 0xD7,
         CHR 0xA1, CHR 0xD7, CHR 0xA4, CHR 0xD7, CHR 0xA8],
        [CHR 0xD7, CHR 0xAA, CHR 0xD7, CHR 0x99, CHR 0xD7, CHR 0x9B, CHR 0xD7, CHR 0x95,
         CHR 0xD7, CHR 0x9F],
        [CHR 0xD7, CHR 0x97, CHR 0xD7, CHR 0x99, CHR 0xD7, CHR 0xA0, CHR 0xD7, CHR 0x95,
         CHR 0xD7, CHR 0x9A]]),
      (''medical'',
       [''medical'', ''clinic'', ''hospital'', ''doctor'', ''health'', ''healthcare'',
        ''maccabi'', ''clalit'', ''leumit'',
        [CHR 0xD7, CHR 0x9E, CHR 0xD7, CHR 0x9B, CHR 0xD7, CHR 0x91, CHR 0xD7, CHR 0x99],
        [CHR 0xD7, CHR 0x9B, CHR 0xD7, CHR 0x9C, CHR 0xD7, CHR 0x9C, CHR 0xD7, CHR 0x99,
         CHR 0xD7, CHR 0xAA],
        [CHR 0xD7, CHR 0x9C, CHR 0xD7, CHR 0x90, CHR 0xD7, CHR 0x95, CHR 0xD7, CHR 0x9E,
         CHR 0xD7, CHR 0x99, CHR 0xD7, CHR 0xAA],
        [CHR 0xD7, CHR 0xA8, CHR 0xD7, CHR 0x95, CHR 0xD7, CHR 0xA4, CHR 0xD7, CHR 0x90],
        [CHR 0xD7, CHR 0xA7, CHR 0xD7, CHR 0x9C, CHR 0xD7, CHR 0x99, CHR 0xD7, CHR 0xA0,
         CHR 0xD7, CHR 0x99, CHR 0xD7, CHR 0xA7, CHR 0xD7, CHR 0x94]]),
      (''transport'',
       [''transport'', ''transportation'', ''bus'', ''train'', ''metro'', ''carmelit'',
        ''station'', ''public transport'',
        [CHR 0xD7, CHR 0xAA, CHR 0xD7, CHR 0x97, CHR 0xD7, CHR 0x91, CHR 0xD7, CHR 0x95,
         CHR 0xD7, CHR 0xA8, CHR 0xD7, CHR 0x94],
        [CHR 0xD7, CHR 0x90, CHR 0xD7, CHR 0x95, CHR 0xD7, CHR 0x98, CHR 0xD7, CHR 0x95,
         CHR 0xD7, CHR 0x91, CHR 0xD7, CHR 0x95, CHR 0xD7, CHR 0xA1],
        [CHR 0xD7, CHR 0xA8, CHR 0xD7, CHR 0x9B, CHR 0xD7, CHR 0x91, CHR 0xD7, CHR 0xAA]])]"

definition transaction_keywords :: "(string \<times> string list) list" where
  "transaction_keywords =
     [(''for_sale'',
       [''for sale'', ''buy'', ''purchase'', ''buying'', ''sale'',
        [CHR 0xD7, CHR 0x9C, CHR 0xD7, CHR 0x9E, CHR 0xD7, CHR 0x9B, CHR 0xD7, CHR 0x99,
         CHR 0xD7, CHR 0xA8, CHR 0xD7, CHR 0x94],
        [CHR 0xD7, CHR 0xA7, CHR 0xD7, CHR 0xA0, CHR 0xD7, CHR 0x99, CHR 0xD7, CHR 0x99,
         CHR 0xD7, CHR 0x94]]),
      (''to_let'',
       [''to let'', ''rent'', ''rental'', ''renting'', ''lease'',
        [CHR 0xD7, CHR 0x9C, CHR 0xD7, CHR 0x94, CHR 0xD7, CHR 0xA9, CHR 0xD7, CHR 0x9B,
         CHR 0xD7, CHR 0xA8, CHR 0xD7, CHR 0x94],
        [CHR 0xD7, CHR 0x94, CHR 0xD7, CHR 0xA9, CHR 0xD7, CHR 0x9B, CHR 0xD7, CHR 0xA8,
         CHR 0xD7, CHR 0x94],
        [CHR 0xD7, CHR 0xA9, CHR 0xD7, CHR 0x9B, CHR 0xD7, CHR 0x99, CHR 0xD7, CHR 0xA8,
         CHR 0xD7, CHR 0x95, CHR 0xD7, CHR 0xAA]])]"

text \<open>
  \<^verbatim>\<open>
  detected_transaction = None
  for trans_type, keywords in transaction_keywords.items():
      if any(keyword in query_text for keyword in keywords):
          detected_transaction = 'For Sale' if trans_type == 'for_sale' else 'To Let'
          break
  \<close>
  The dictionary is walked in the order it is written.
\<close>

fun detect_transaction :: "(string \<times> string list) list \<Rightarrow> string \<Rightarrow> string option" where
  "detect_transaction [] query_text = None"
| "detect_transaction ((trans_type, keywords) # rest) query_text =
     (if any_in keywords query_text
      then Some (if trans_type = ''for_sale'' then ''For Sale'' else ''To Let'')
      else detect_transaction rest query_text)"

definition detect_query_intent_and_amenities :: "kwargs \<Rightarrow> intent" where
  "detect_query_intent_and_amenities search_params =
     (let query_text = str_lower (case kw_query_text search_params of None \<Rightarrow> [] | Some q \<Rightarrow> q);
          listing_q = any_in listing_indicators query_text;
          data_q = any_in data_indicators query_text;
          mentioned0 = map fst (filter (\<lambda>(amenity_type, keywords). any_in keywords query_text)
                                   amenity_patterns);
          detected = detect_transaction transaction_keywords query_text;
          mentioned1 = (if kw_near_schools search_params \<and> ''schools'' \<notin> set mentioned0
                        then mentioned0 @ [''schools''] else mentioned0);
          mentioned2 = (if kw_near_medical search_params \<and> ''medical'' \<notin> set mentioned1
                        then mentioned1 @ [''medical''] else mentioned1)
      in \<lparr> format_mode = (if data_q \<and> \<not> listing_q \<and> mentioned2 = [] then Data else Listings),
           mentioned_amenities = mentioned2,
           is_listing_query = listing_q,
           is_data_query = data_q,
           detected_transaction = detected \<rparr>)"

subsection \<open>Rounding and series\<close>

text \<open>
  \<^verbatim>\<open>round(x, 1)\<close>: to the nearest tenth, a tie going to the even neighbour.
\<close>

definition py_round1 :: "real \<Rightarrow> real" where
  "py_round1 x = of_int (round_half_even (x * 10)) / 10"

text \<open>
  \<^verbatim>\<open>(column < v).mean()\<close>: the fraction of the cells strictly below \<open>v\<close>. The mean of an
  empty series is NaN, which is \<open>None\<close> here.
\<close>

definition series_mean_lt :: "real list \<Rightarrow> real \<Rightarrow> real option" where
  "series_mean_lt column v =
     (if column = [] then None
      else Some (real (length (filter (\<lambda>x. x < v) column)) / real (length column)))"

text \<open>\<^verbatim>\<open>column.mean()\<close>, \<^verbatim>\<open>column.min()\<close> and \<^verbatim>\<open>column.max()\<close>, which the code calls on a
  frame with at least one row.\<close>

definition series_mean :: "real list \<Rightarrow> real" where
  "series_mean column = sum_list column / real (length column)"

definition series_min :: "real list \<Rightarrow> real" where
  "series_min column = fold min (tl column) (hd column)"

definition series_max :: "real list \<Rightarrow> real" where
  "series_max column = fold max (tl column) (hd column)"

subsection \<open>\<^verbatim>\<open>calculate_madlan_match_score\<close>\<close>

text \<open>
  The clock \<^verbatim>\<open>datetime.now()\<close> is the parameter \<open>now\<close>, in seconds like \<^verbatim>\<open>publish_date\<close>;
  \<^verbatim>\<open>(datetime.now() - pub_date).days\<close> is the whole number of days between them, rounded
  down. The running sum \<^verbatim>\<open>metadata_score\<close> is NaN once a mean over an empty frame has entered
  it, and \<^verbatim>\<open>min(100, nan)\<close> is 100.
\<close>

definition days_old :: "int \<Rightarrow> int \<Rightarrow> int" where
  "days_old now pub_date = (now - pub_date) div 86400"

definition price_points :: "listing \<Rightarrow> listing list \<Rightarrow> real option" where
  "price_points property_row all_properties_df =
     (if length all_properties_df > 1
      then map_option (\<lambda>price_percentile. 15 * (1 - price_percentile))
             (series_mean_lt (map property_price all_properties_df)
                (property_price property_row))
      else Some 0)"

definition size_points :: "listing \<Rightarrow> listing list \<Rightarrow> real option" where
  "size_points property_row all_properties_df =
     (let area = property_builded_area property_row
      in if area > 0
         then map_option (\<lambda>area_percentile. 10 * area_percentile)
                (series_mean_lt (map property_builded_area all_properties_df) area)
         else Some 0)"

definition feature_points :: "listing \<Rightarrow> real" where
  "feature_points property_row =
     (if bulletin_has_parking property_row then 5 else 0) +
     (if bulletin_has_elevator property_row then 5 else 0) +
     (if bulletin_has_balconies property_row then 5 else 0)"

definition recency_points :: "int \<Rightarrow> listing \<Rightarrow> real" where
  "recency_points now property_row =
     (case publish_date property_row of
        None \<Rightarrow> 5
      | Some pub_date \<Rightarrow> max 0 (10 * (1 - real_of_int (days_old now pub_date) / 365)))"

definition context_score :: "listing \<Rightarrow> kwargs \<Rightarrow> real" where
  "context_score property_row search_params =
     (if kw_near_schools search_params
      then (let school_dist = nearest_school_distance_km property_row
            in if school_dist < 999 then min 50 (50 * exp (- school_dist * 2)) else 0)
      else 25)"

definition calculate_madlan_match_score ::
  "int \<Rightarrow> listing \<Rightarrow> kwargs \<Rightarrow> listing list \<Rightarrow> real" where
  "calculate_madlan_match_score now property_row search_params all_properties_df =
     (case (price_points property_row all_properties_df,
            size_points property_row all_properties_df) of
        (Some pp, Some sp) \<Rightarrow>
          min 100 (py_round1 (pp + sp + feature_points property_row
                               + recency_points now property_row
                               + context_score property_row search_params))
      | _ \<Rightarrow> 100)"

subsection \<open>Data frames in a store\<close>

text \<open>
  A data frame is an object: \<^verbatim>\<open>self.properties_df\<close> holds a reference to one, and so does
  the local variable \<^verbatim>\<open>df\<close>. The store maps references to frames. \<^verbatim>\<open>copy\<close>, selection by
  a mask, \<^verbatim>\<open>sort_values\<close> and \<^verbatim>\<open>head\<close> make a new frame; the assignment of a column
  (\<^verbatim>\<open>df[col] = ...\<close>) changes the frame the reference points to.
\<close>

type_synonym frame = "listing list"

record store =
  frames :: "nat \<Rightarrow> frame option"
  next_ref :: nat

record server =
  properties_df :: nat
  data_loaded :: bool

definition frame_of :: "store \<Rightarrow> nat \<Rightarrow> frame" where
  "frame_of st r = (case frames st r of None \<Rightarrow> [] | Some f \<Rightarrow> f)"

definition new_frame :: "frame \<Rightarrow> store \<Rightarrow> nat \<times> store" where
  "new_frame f st =
     (next_ref st, st\<lparr>frames := (frames st)(next_ref st \<mapsto> f), next_ref := Suc (next_ref st)\<rparr>)"

definition df_copy :: "nat \<Rightarrow> store \<Rightarrow> nat \<times> store" where
  "df_copy r st = new_frame (frame_of st r) st"

definition df_getitem_mask :: "(listing \<Rightarrow> bool) \<Rightarrow> nat \<Rightarrow> store \<Rightarrow> nat \<times> store" where
  "df_getitem_mask keep r st = new_frame (filter keep (frame_of st r)) st"

definition df_setitem :: "nat \<Rightarrow> (frame \<Rightarrow> frame) \<Rightarrow> store \<Rightarrow> store" where
  "df_setitem r upd st = st\<lparr>frames := (frames st)(r \<mapsto> upd (frame_of st r))\<rparr>"

text \<open>
  \<^verbatim>\<open>df.sort_values('madlan_match_score', ascending=False)\<close> is pandas' routine with its
  default algorithm; it is the parameter \<open>sort_values\<close>, a function from the frame to the
  reordered frame. The order it gives to rows of equal score belongs to that routine, and
  nothing here fixes it.
\<close>

definition df_sort_values :: "(frame \<Rightarrow> frame) \<Rightarrow> nat \<Rightarrow> store \<Rightarrow> nat \<times> store" where
  "df_sort_values sort_values r st = new_frame (sort_values (frame_of st r)) st"

text \<open>\<^verbatim>\<open>df.head(n)\<close>: the first \<open>n\<close> rows, or all but the last \<open>-n\<close> rows for a negative \<open>n\<close>.\<close>

definition py_head :: "int \<Rightarrow> 'a list \<Rightarrow> 'a list" where
  "py_head n xs = (if 0 \<le> n then take (nat n) xs else take (nat (int (length xs) + n)) xs)"

definition df_head :: "int \<Rightarrow> nat \<Rightarrow> store \<Rightarrow> nat \<times> store" where
  "df_head n r st = new_frame (py_head n (frame_of st r)) st"

subsection \<open>\<^verbatim>\<open>search_properties\<close>\<close>

text \<open>The entries of \<^verbatim>\<open>filters\<close>; each stands for the text the code builds from its value.\<close>

datatype filter_desc =
    TransactionTypeFilter string
  | AutoDetected string
  | MaxPrice real
  | MinPrice real
  | MinRooms real
  | NearSchools
  | NearMedical
  | MustHaveParking
  | MustHaveElevator
  | MustHaveBalcony

record stats =
  avg_price :: int
  min_price :: int
  max_price :: int
  avg_area :: real

record search_result =
  properties :: "listing list"
  filters :: "filter_desc list"
  total_found :: nat
  search_params :: kwargs
  market_stats :: stats
  intent_data :: intent

text \<open>
  \<^verbatim>\<open>df[col] = df[col].astype(str).str.lower() == 'true'\<close> on a column of booleans.
\<close>

definition py_str_bool :: "bool \<Rightarrow> string" where
  "py_str_bool b = (if b then ''True'' else ''False'')"

definition fix_boolean :: "bool \<Rightarrow> bool" where
  "fix_boolean b = (str_lower (py_str_bool b) = ''true'')"

definition fix_boolean_cols :: "listing \<Rightarrow> listing" where
  "fix_boolean_cols r =
     r\<lparr>bulletin_has_parking := fix_boolean (bulletin_has_parking r),
       bulletin_has_elevator := fix_boolean (bulletin_has_elevator r),
       bulletin_has_balconies := fix_boolean (bulletin_has_balconies r)\<rparr>"

text \<open>
  One block of the filter pipeline,
  \<^verbatim>\<open>
  if <condition>:
      df = df[<mask>]
      filters.append(<description>)
  \<close>
  on the local variables \<^verbatim>\<open>df\<close> and \<^verbatim>\<open>filters\<close> and the store.
\<close>

definition filter_if ::
  "bool \<Rightarrow> (listing \<Rightarrow> bool) \<Rightarrow> filter_desc \<Rightarrow> nat \<times> filter_desc list \<times> store
     \<Rightarrow> nat \<times> filter_desc list \<times> store" where
  "filter_if condition keep description s =
     (case s of (df, descs, st) \<Rightarrow>
        if condition
        then (case df_getitem_mask keep df st of (df', st') \<Rightarrow> (df', descs @ [description], st'))
        else (df, descs, st))"

definition set_scores :: "real list \<Rightarrow> frame \<Rightarrow> frame" where
  "set_scores match_scores f =
     map (\<lambda>(row, score). row\<lparr>madlan_match_score := Some score\<rparr>) (zip f match_scores)"

definition market_stats_of :: "frame \<Rightarrow> stats" where
  "market_stats_of df =
     \<lparr> avg_price = (if length df > 0 then py_int (series_mean (map property_price df)) else 0),
       min_price = (if length df > 0 then py_int (series_min (map property_price df)) else 0),
       max_price = (if length df > 0 then py_int (series_max (map property_price df)) else 0),
       avg_area = (if length df > 0 then py_round1 (series_mean (map property_builded_area df))
                   else 0) \<rparr>"

text \<open>
  The blocks of the pipeline in the order of the code, each as its condition, its mask and
  its description:
  \<^verbatim>\<open>
  if kwargs.get('transaction_type'):
      transaction_filter = kwargs['transaction_type']
      df = df[df['transaction_type'] == transaction_filter]
      filters.append(f"Transaction type: {transaction_filter}")
  detected_transaction = intent_data.get('detected_transaction')
  if detected_transaction and not kwargs.get('transaction_type'):
      df = df[df['transaction_type'] == detected_transaction]
      filters.append(f"Auto-detected: {detected_transaction} properties only")
  if kwargs.get('max_price'):
      df = df[df['property_price'] <= kwargs['max_price']]
  ...
  if kwargs.get('has_balcony'):
      df = df[df['bulletin_has_balconies'] == True]
  \<close>
  Both data sources carry the column \<^verbatim>\<open>transaction_type\<close>, so the inner test
  \<^verbatim>\<open>'transaction_type' in df.columns\<close> holds.
\<close>

definition filter_blocks ::
  "kwargs \<Rightarrow> intent \<Rightarrow> (bool \<times> (listing \<Rightarrow> bool) \<times> filter_desc) list" where
  "filter_blocks kw intent =
     (let explicit = kw_transaction_type kw;
          detected = detected_transaction intent
      in [(truthy_str explicit,
             (\<lambda>r. transaction_type r = the explicit), TransactionTypeFilter (the explicit)),
          (truthy_str detected \<and> \<not> truthy_str explicit,
             (\<lambda>r. transaction_type r = the detected), AutoDetected (the detected)),
          (truthy_num (kw_max_price kw),
             (\<lambda>r. property_price r \<le> the (kw_max_price kw)), MaxPrice (the (kw_max_price kw))),
          (truthy_num (kw_min_price kw),
             (\<lambda>r. property_price r \<ge> the (kw_min_price kw)), MinPrice (the (kw_min_price kw))),
          (truthy_num (kw_rooms kw),
             (\<lambda>r. property_rooms r \<ge> the (kw_rooms kw)), MinRooms (the (kw_rooms kw))),
          (kw_near_schools kw, (\<lambda>r. nearest_school_distance_km r \<le> 1.5), NearSchools),
          (kw_near_medical kw, (\<lambda>r. nearest_clinic_distance_km r \<le> 2.0), NearMedical),
          (kw_has_parking kw, (\<lambda>r. bulletin_has_parking r = True), MustHaveParking),
          (kw_has_elevator kw, (\<lambda>r. bulletin_has_elevator r = True), MustHaveElevator),
          (kw_has_balcony kw, (\<lambda>r. bulletin_has_balconies r = True), MustHaveBalcony)])"

text \<open>
  \<^verbatim>\<open>
  df = self.properties_df.copy()
  filters = []
  for col in boolean_cols: df[col] = df[col].astype(str).str.lower() == 'true'
  intent_data = self.detect_query_intent_and_amenities(kwargs)
  <the filter blocks>
  match_scores = []
  for idx, row in df.iterrows():
      score = self.calculate_madlan_match_score(row, kwargs, self.properties_df)
      match_scores.append(score)
  df['madlan_match_score'] = match_scores
  df = df.sort_values('madlan_match_score', ascending=False)
  limit = kwargs.get('limit', 10)
  df = df.head(limit)
  result = { 'properties': df.to_dict('records'), 'filters': filters,
             'total_found': len(df), 'search_params': kwargs,
             'market_stats': {...}, '_intent_data': intent_data }
  \<close>
  The function returns the result and the store it leaves behind. The rows of one request
  are scored against one reading \<open>now\<close> of the clock.
\<close>

definition search_properties ::
  "(frame \<Rightarrow> frame) \<Rightarrow> int \<Rightarrow> server \<Rightarrow> kwargs \<Rightarrow> store \<Rightarrow> search_result \<times> store" where
  "search_properties sort_values now self kw st0 =
     (let (df0, st1) = df_copy (properties_df self) st0;
          st2 = df_setitem df0 (map fix_boolean_cols) st1;
          intent = detect_query_intent_and_amenities kw;
          (df, descs, st3) = fold (\<lambda>(condition, keep, description).
                                     filter_if condition keep description)
                                  (filter_blocks kw intent) (df0, [], st2);
          match_scores = map (\<lambda>row. calculate_madlan_match_score now row kw
                                      (frame_of st3 (properties_df self)))
                             (frame_of st3 df);
          st4 = df_setitem df (set_scores match_scores) st3;
          (df_sorted, st5) = df_sort_values sort_values df st4;
          limit = (case kw_limit kw of None \<Rightarrow> 10 | Some n \<Rightarrow> n);
          (df_page, st6) = df_head limit df_sorted st5;
          page = frame_of st6 df_page
      in (\<lparr> properties = page,
            filters = descs,
            total_found = length page,
            search_params = kw,
            market_stats = market_stats_of page,
            intent_data = intent \<rparr>, st6))"

subsection \<open>The frames of a search, as values\<close>

text \<open>
  The data set a server holds, and the condition under which a store is well formed for it:
  the reference \<^verbatim>\<open>self.properties_df\<close> is one the store has handed out.
\<close>

definition dataset :: "server \<Rightarrow> store \<Rightarrow> frame" where
  "dataset self st = frame_of st (properties_df self)"

definition well_formed :: "server \<Rightarrow> store \<Rightarrow> bool" where
  "well_formed self st = (properties_df self < next_ref st)"

text \<open>
  What the filter blocks leave of a frame, and the descriptions they append: the filtered
  candidate pool of a request and its list \<^verbatim>\<open>filters\<close>.
\<close>

definition run_blocks :: "(bool \<times> (listing \<Rightarrow> bool) \<times> filter_desc) list \<Rightarrow> frame \<Rightarrow> frame" where
  "run_blocks blocks f =
     fold (\<lambda>(condition, keep, description) g. if condition then filter keep g else g) blocks f"

definition block_descriptions ::
  "(bool \<times> (listing \<Rightarrow> bool) \<times> filter_desc) list \<Rightarrow> filter_desc list" where
  "block_descriptions blocks =
     map (\<lambda>(condition, keep, description). description)
         (filter (\<lambda>(condition, keep, description). condition) blocks)"

definition filtered_pool :: "kwargs \<Rightarrow> frame \<Rightarrow> frame" where
  "filtered_pool kw data =
     run_blocks (filter_blocks kw (detect_query_intent_and_amenities kw))
       (map fix_boolean_cols data)"

definition scored_pool :: "int \<Rightarrow> kwargs \<Rightarrow> frame \<Rightarrow> frame" where
  "scored_pool now kw data =
     set_scores (map (\<lambda>row. calculate_madlan_match_score now row kw data) (filtered_pool kw data))
       (filtered_pool kw data)"

text \<open>
  One \<open>sort_values\<close> to run the model with: insertion sort by descending score, a row going
  in front of the rows that do not score more.
\<close>

definition score_of :: "listing \<Rightarrow> real" where
  "score_of r = (case madlan_match_score r of None \<Rightarrow> 0 | Some v \<Rightarrow> v)"

primrec insert_desc :: "listing \<Rightarrow> frame \<Rightarrow> frame" where
  "insert_desc r [] = [r]"
| "insert_desc r (x # xs) = (if score_of r < score_of x then x # insert_desc r xs else r # x # xs)"

definition insertion_sort_values :: "frame \<Rightarrow> frame" where
  "insertion_sort_values f = foldr insert_desc f []"

subsection \<open>\<^verbatim>\<open>create_fallback_data\<close>\<close>

text \<open>
  The three built-in listings, published 2025-03-30, 2025-02-04 and 2025-01-15 (the dates as
  seconds since 1970, the streets as UTF-8).
\<close>

definition fallback_data :: frame where
  "fallback_data =
     [\<lparr> publish_date = Some 1743292800, property_rooms = 4.0, property_price = 1290000,
        property_builded_area = 100,
        street = [CHR 0xD7, CHR 0x94, CHR 0xD7, CHR 0xA8, CHR 0xD7, CHR 0xA6, CHR 0xD7, CHR 0x9C,
                  CHR 0xD7, CHR 0x99, CHR 0xD7, CHR 0x94],
        transaction_type = ''For Sale'',
        bulletin_has_parking = False, bulletin_has_elevator = True,
        bulletin_has_balconies = True,
        nearest_school_distance_km = 0.14, nearest_clinic_distance_km = 0.39,
        madlan_match_score = None \<rparr>,
      \<lparr> publish_date = Some 1738627200, property_rooms = 3.5, property_price = 1590000,
        property_builded_area = 68,
        street = [CHR 0xD7, CHR 0xA9, CHR 0xD7, CHR 0xA4, CHR 0xD7, CHR 0xA8, CHR 0xD7, CHR 0xA2],
        transaction_type = ''For Sale'',
        bulletin_has_parking = True, bulletin_has_elevator = True,
        bulletin_has_balconies = False,
        nearest_school_distance_km = 0.08, nearest_clinic_distance_km = 0.12,
        madlan_match_score = None \<rparr>,
      \<lparr> publish_date = Some 1736899200, property_rooms = 3.0, property_price = 1750000,
        property_builded_area = 80,
        street = [CHR 0xD7, CHR 0x9B, CHR 0xD7, CHR 0x95, CHR 0xD7, CHR 0xA8, CHR 0xD7, CHR 0x99],
        transaction_type = ''For Sale'',
        bulletin_has_parking = True, bulletin_has_elevator = False,
        bulletin_has_balconies = True,
        nearest_school_distance_km = 0.05, nearest_clinic_distance_km = 0.33,
        madlan_match_score = None \<rparr>]"

definition fallback_store :: store where
  "fallback_store = \<lparr> frames = [0 \<mapsto> fallback_data], next_ref = 1 \<rparr>"

definition fallback_server :: server where
  "fallback_server = \<lparr> properties_df = 0, data_loaded = True \<rparr>"

definition no_kwargs :: kwargs where
  "no_kwargs =
     \<lparr> kw_query_text = None, kw_transaction_type = None, kw_max_price = None,
       kw_min_price = None, kw_rooms = None, kw_near_schools = False, kw_near_medical = False,
       kw_has_parking = False, kw_has_elevator = False, kw_has_balcony = False,
       kw_limit = None \<rparr>"

subsection \<open>\<^verbatim>\<open>handle_request\<close> and \<^verbatim>\<open>main\<close>\<close>

text \<open>
  What \<^verbatim>\<open>json.loads\<close> makes of a line is either a JSON object, read as a request with the
  keys the dispatcher looks at, or a value of another Python type (a list, a number, ...),
  of which only the type name matters. The identifier of a request is null when absent.

  A line of the standard input is a Python \<^verbatim>\<open>str\<close>, as the text layer of \<^verbatim>\<open>sys.stdin\<close>
  delivers it: the list of its code points.
\<close>

type_synonym py_str = "nat list"

datatype json_id = IdNull | IdNum int | IdStr string

record tool_call =
  call_name :: "string option"
  call_arguments :: "kwargs option"

record request =
  req_method :: "string option"
  req_id :: json_id
  req_params :: "tool_call option"

datatype json_value = NonObject string | Object request

datatype result_body = InitializeResult | ToolsListResult | ContentText string

datatype response = SKIP_RESPONSE | Result json_id result_body | Error json_id int string

text \<open>
  \<^verbatim>\<open>json.loads\<close> on a line returns a value, raises \<^verbatim>\<open>json.JSONDecodeError\<close> (with its text),
  or raises another exception, as \<^verbatim>\<open>RecursionError\<close> on brackets nested too deep.
\<close>

datatype loads_result = Loaded json_value | JSONDecodeError string | LoadsRaises py_error

text \<open>
  The parts the dispatcher calls and this development leaves open: pandas' \<^verbatim>\<open>sort_values\<close>,
  \<^verbatim>\<open>json.loads\<close>, the report writer \<^verbatim>\<open>format_desktop_optimized\<close> and the \<^verbatim>\<open>json.dumps\<close> of
  the data-mode answer; the last two return the text or the exception they raise.
\<close>

record externals =
  sort_values :: "frame \<Rightarrow> frame"
  json_loads :: "py_str \<Rightarrow> loads_result"
  format_desktop_optimized :: "search_result \<Rightarrow> string list \<Rightarrow> py_error + string"
  dumps_data_response :: "search_result \<Rightarrow> py_error + string"

text \<open>\<^verbatim>\<open>str(e)\<close>\<close>

definition error_text :: "py_error \<Rightarrow> string" where
  "error_text e =
     (case e of
        ZeroDivisionError \<Rightarrow> ''float division by zero''
      | ValueError \<Rightarrow> ''cannot convert float NaN to integer''
      | OverflowError \<Rightarrow> ''cannot convert float infinity to integer''
      | RecursionError msg \<Rightarrow> msg
      | KeyError k \<Rightarrow> [CHR 0x27] @ k @ [CHR 0x27]
      | AttributeError ty \<Rightarrow> [CHR 0x27] @ ty @ [CHR 0x27] @ '' object has no attribute ''
                               @ [CHR 0x27] @ ''get'' @ [CHR 0x27]
      | Raised msg \<Rightarrow> msg)"

text \<open>The body of the \<^verbatim>\<open>try\<close> block of \<^verbatim>\<open>handle_request\<close>, for a request that is an object.\<close>

definition handle_request_try ::
  "externals \<Rightarrow> int \<Rightarrow> server \<Rightarrow> request \<Rightarrow> store \<Rightarrow> (py_error + response) \<times> store" where
  "handle_request_try ext now self req st =
     (let method = (case req_method req of None \<Rightarrow> [] | Some m \<Rightarrow> m);
          request_id = req_id req
      in if method = ''initialize'' then (Inr (Result request_id InitializeResult), st)
         else if method = ''notifications/initialized'' then (Inr SKIP_RESPONSE, st)
         else if method = ''tools/list'' then (Inr (Result request_id ToolsListResult), st)
         else if method = ''tools/call'' then
           (if \<not> data_loaded self
            then (Inr (Result request_id
                        (ContentText ''Data not loaded. Please run install.py first.'')), st)
            else (case req_params req of
                    None \<Rightarrow> (Inl (KeyError ''params''), st)
                  | Some params \<Rightarrow>
                      (case call_name params of
                         None \<Rightarrow> (Inl (KeyError ''name''), st)
                       | Some tool_name \<Rightarrow>
                           (let arguments = (case call_arguments params of
                                               None \<Rightarrow> no_kwargs | Some a \<Rightarrow> a)
                            in if tool_name = ''Madlan_MCP''
                               then (case search_properties (sort_values ext) now self arguments st of
                                       (result, st') \<Rightarrow>
                                         (if format_mode (intent_data result) = Listings
                                          then (case format_desktop_optimized ext result
                                                       (mentioned_amenities (intent_data result)) of
                                                  Inl e \<Rightarrow> (Inl e, st')
                                                | Inr text \<Rightarrow>
                                                    (Inr (Result request_id (ContentText text)), st'))
                                          else (case dumps_data_response ext result of
                                                  Inl e \<Rightarrow> (Inl e, st')
                                                | Inr text \<Rightarrow>
                                                    (Inr (Result request_id (ContentText text)), st'))))
                               else (Inr (Error request_id (-32601)
                                            (''Unknown tool: '' @ tool_name)), st)))))
         else (Inr (Error request_id (-32601) (''Unknown method: '' @ method)), st))"

text \<open>
  \<^verbatim>\<open>handle_request\<close>: the \<^verbatim>\<open>try\<close> block and its handler, which answers with an internal
  error under the identifier of the request. On a value that is not an object already
  \<^verbatim>\<open>request.get\<close> raises, in the block and again in the handler, so the exception leaves
  the function.
\<close>

definition handle_request ::
  "externals \<Rightarrow> int \<Rightarrow> server \<Rightarrow> json_value \<Rightarrow> store \<Rightarrow> (py_error + response) \<times> store" where
  "handle_request ext now self request st =
     (case request of
        NonObject ty \<Rightarrow> (Inl (AttributeError ty), st)
      | Object req \<Rightarrow>
          (case handle_request_try ext now self req st of
             (Inl e, st') \<Rightarrow>
               (Inr (Error (req_id req) (-32603) (''Internal error: '' @ error_text e)), st')
           | (Inr response, st') \<Rightarrow> (Inr response, st')))"

text \<open>
  \<^verbatim>\<open>str.strip\<close> removes the white space at both ends: the code points for which
  \<^verbatim>\<open>str.isspace\<close> holds, which are U+0009 to U+000D, U+001C to U+0020, U+0085, U+00A0,
  U+1680, U+2000 to U+200A, U+2028, U+2029, U+202F, U+205F and U+3000.
\<close>

definition is_space :: "nat \<Rightarrow> bool" where
  "is_space c =
     (c \<in> set [0x09, 0x0A, 0x0B, 0x0C, 0x0D, 0x1C, 0x1D, 0x1E, 0x1F, 0x20, 0x85, 0xA0,
                0x1680, 0x2000, 0x2001, 0x2002, 0x2003, 0x2004, 0x2005, 0x2006, 0x2007,
                0x2008, 0x2009, 0x200A, 0x2028, 0x2029, 0x202F, 0x205F, 0x3000])"

definition py_strip :: "py_str \<Rightarrow> py_str" where
  "py_strip s = rev (dropWhile is_space (rev (dropWhile is_space s)))"

text \<open>
  The loop of \<^verbatim>\<open>main\<close> over the lines of the standard input, each line coming with the
  clock reading of its handling. The result is the list of the answers printed, in order,
  and the final store.
  \<^verbatim>\<open>
  for line in sys.stdin:
      line = line.strip()
      if not line:
          continue
      try:
          request = json.loads(line)
          response = server.handle_request(request)
          if response != "SKIP_RESPONSE":
              print(json.dumps(response, ...))
      except json.JSONDecodeError as e:
          print(json.dumps({"jsonrpc": "2.0", "id": None,
                            "error": {"code": -32700, "message": f"Parse error: {str(e)}"}}))
      except Exception as e:
          print(json.dumps({"jsonrpc": "2.0", "id": None,
                            "error": {"code": -32603, "message": f"Internal error: {str(e)}"}}))
  \<close>
  The second handler takes every other exception of \<^verbatim>\<open>json.loads\<close> and the exception that
  leaves \<^verbatim>\<open>handle_request\<close>.
\<close>

fun main :: "externals \<Rightarrow> server \<Rightarrow> (int \<times> py_str) list \<Rightarrow> store \<Rightarrow> response list \<times> store" where
  "main ext server [] st = ([], st)"
| "main ext server ((now, raw_line) # rest) st =
     (let line = py_strip raw_line
      in if line = [] then main ext server rest st
         else (case json_loads ext line of
                 JSONDecodeError msg \<Rightarrow>
                   (case main ext server rest st of
                      (printed, st') \<Rightarrow>
                        (Error IdNull (-32700) (''Parse error: '' @ msg) # printed, st'))
               | LoadsRaises e \<Rightarrow>
                   (case main ext server rest st of
                      (printed, st') \<Rightarrow>
                        (Error IdNull (-32603) (''Internal error: '' @ error_text e) # printed,
                         st'))
               | Loaded request \<Rightarrow>
                   (case handle_request ext now server request st of
                      (Inl e, st1) \<Rightarrow>
                        (case main ext server rest st1 of
                           (printed, st') \<Rightarrow>
                             (Error IdNull (-32603) (''Internal error: '' @ error_text e) # printed,
                              st'))
                    | (Inr response, st1) \<Rightarrow>
                        (case main ext server rest st1 of
                           (printed, st') \<Rightarrow>
                             (if response \<noteq> SKIP_RESPONSE then response # printed else printed,
                              st')))))"

text \<open>
  Four lines to run the loop with: the text \<^verbatim>\<open>oops\<close> between blanks, a line that is a single
  NO-BREAK SPACE, the empty object \<^verbatim>\<open>{}\<close>, and 100000 opening brackets. Each ends with
  its line feed.
\<close>

definition oops_line :: py_str where
  "oops_line = [0x20, 0x20, 0x6F, 0x6F, 0x70, 0x73, 0x20, 0x0A]"

definition nbsp_line :: py_str where
  "nbsp_line = [0xA0, 0x0A]"

definition empty_object_line :: py_str where
  "empty_object_line = [0x7B, 0x7D, 0x0A]"

definition deep_line :: py_str where
  "deep_line = replicate 100000 0x5B @ [0x0A]"

text \<open>
  A \<^verbatim>\<open>json.loads\<close> that is right on those lines once stripped: \<^verbatim>\<open>{}\<close> is an object with no
  key, the brackets exhaust the recursion limit of the decoder, and \<^verbatim>\<open>oops\<close> (which stands
  for every other text here) is no JSON.
\<close>

definition demo_json_loads :: "py_str \<Rightarrow> loads_result" where
  "demo_json_loads line =
     (if line = [0x7B, 0x7D]
      then Loaded (Object \<lparr> req_method = None, req_id = IdNull, req_params = None \<rparr>)
      else if line = replicate 100000 0x5B
      then LoadsRaises (RecursionError
             ''maximum recursion depth exceeded while decoding a JSON array from a unicode string'')
      else JSONDecodeError ''Expecting value: line 1 column 1 (char 0)'')"

definition demo_externals :: externals where
  "demo_externals =
     \<lparr> sort_values = insertion_sort_values,
       json_loads = demo_json_loads,
       format_desktop_optimized = (\<lambda>result amenities. Inr ''report''),
       dumps_data_response = (\<lambda>result. Inr ''data'') \<rparr>"

subsection \<open>Dominance, in the words of the specification\<close>

text \<open>
  A record is strictly cheaper, strictly larger and strictly newer than a peer, and has
  parking, elevator and balcony. Newer compares two publish dates, so both have to parse.
\<close>

definition spec_dominates :: "listing \<Rightarrow> listing \<Rightarrow> bool" where
  "spec_dominates r p =
     (property_price r < property_price p \<and>
      property_builded_area p < property_builded_area r \<and>
      (case (publish_date r, publish_date p) of
         (Some date_r, Some date_p) \<Rightarrow> date_p < date_r
       | _ \<Rightarrow> False) \<and>
      bulletin_has_parking r \<and> bulletin_has_elevator r \<and> bulletin_has_balconies r)"

subsection \<open>Two listings for the school-proximity score\<close>

text \<open>
  A listing that is cheaper, larger, newer and fully featured but 1.5 km from a school, and
  a peer next to a school. The clock is at the publish date of the first, 400 days after
  that of the second.
\<close>

definition far_listing :: listing where
  "far_listing =
     \<lparr> publish_date = Some 34560000, property_rooms = 4, property_price = 1000000,
       property_builded_area = 100, street = ''A'', transaction_type = ''For Sale'',
       bulletin_has_parking = True, bulletin_has_elevator = True, bulletin_has_balconies = True,
       nearest_school_distance_km = 1.5, nearest_clinic_distance_km = 1,
       madlan_match_score = None \<rparr>"

definition near_listing :: listing where
  "near_listing =
     \<lparr> publish_date = Some 0, property_rooms = 3, property_price = 2000000,
       property_builded_area = 50, street = ''B'', transaction_type = ''For Sale'',
       bulletin_has_parking = True, bulletin_has_elevator = True, bulletin_has_balconies = True,
       nearest_school_distance_km = 0, nearest_clinic_distance_km = 1,
       madlan_match_score = None \<rparr>"

definition near_schools_kwargs :: kwargs where
  "near_schools_kwargs = no_kwargs\<lparr>kw_near_schools := True\<rparr>"

subsection \<open>Requests on the built-in listings\<close>

definition under_1500000 :: kwargs where
  "under_1500000 = no_kwargs\<lparr>kw_max_price := Some 1500000\<rparr>"

definition first_two :: kwargs where
  "first_two = no_kwargs\<lparr>kw_limit := Some 2\<rparr>"

text \<open>A query text that speaks of renting, with and without an explicit transaction type.\<close>

definition rent_query :: kwargs where
  "rent_query = no_kwargs\<lparr>kw_query_text := Some ''Flats to RENT''\<rparr>"

definition sale_filter_rent_query :: kwargs where
  "sale_filter_rent_query = rent_query\<lparr>kw_transaction_type := Some ''For Sale''\<rparr>"

section \<open>Auxiliary facts\<close>

subsection \<open>Rounding, percentiles and the parts of the score\<close>



lemma round_half_even_mono:
  assumes "x \<le> y" shows "round_half_even x \<le> round_half_even y"
proof (cases "\<lfloor>x\<rfloor> = \<lfloor>y\<rfloor>")
  case True
  then show ?thesis using assms unfolding round_half_even_def Let_def by auto
next
  case False
  have "\<lfloor>x\<rfloor> \<le> \<lfloor>y\<rfloor>" using assms by (rule floor_mono)
  then have lt: "\<lfloor>x\<rfloor> + 1 \<le> \<lfloor>y\<rfloor>" using False by linarith
  have "round_half_even x \<le> \<lfloor>x\<rfloor> + 1" unfolding round_half_even_def Let_def by auto
  moreover have "\<lfloor>y\<rfloor> \<le> round_half_even y" unfolding round_half_even_def Let_def by auto
  ultimately show ?thesis using lt by linarith
qed

lemma round_half_even_of_int: "round_half_even (of_int n) = n"
  unfolding round_half_even_def Let_def by simp

lemma py_round1_mono: "x \<le> y \<Longrightarrow> py_round1 x \<le> py_round1 y"
  unfolding py_round1_def using round_half_even_mono[of "x * 10" "y * 10"]
  by (simp add: divide_right_mono)

lemma py_round1_nonneg: "0 \<le> x \<Longrightarrow> 0 \<le> py_round1 x"
proof -
  assume "0 \<le> x"
  then have "round_half_even 0 \<le> round_half_even (x * 10)"
    by (intro round_half_even_mono) simp
  moreover have "round_half_even 0 = 0" by (simp add: round_half_even_def)
  ultimately show ?thesis unfolding py_round1_def by simp
qed

lemma series_mean_lt_range:
  "series_mean_lt col v = Some p \<Longrightarrow> 0 \<le> p \<and> p \<le> 1"
  unfolding series_mean_lt_def
  by (auto split: if_splits simp: divide_le_eq_1 intro: order_trans[OF length_filter_le])

lemma series_mean_lt_mono:
  assumes "v \<le> w" "series_mean_lt col v = Some p" "series_mean_lt col w = Some q"
  shows "p \<le> q"
proof -
  have ne: "col \<noteq> []" using assms(2) by (auto simp: series_mean_lt_def split: if_splits)
  have "length (filter (\<lambda>x. x < v) col) \<le> length (filter (\<lambda>x. x < w) col)"
  proof -
    have "filter (\<lambda>x. x < v) col = filter (\<lambda>x. x < v) (filter (\<lambda>x. x < w) col)"
      using assms(1) by (auto intro: filter_cong)
    then show ?thesis by (metis length_filter_le)
  qed
  then show ?thesis using assms ne
    by (auto simp: series_mean_lt_def divide_right_mono split: if_splits)
qed

lemma price_points_range:
  "price_points r all = Some p \<Longrightarrow> 0 \<le> p \<and> p \<le> 15"
  unfolding price_points_def
  by (auto split: if_splits dest!: series_mean_lt_range)

lemma size_points_range:
  "size_points r all = Some p \<Longrightarrow> 0 \<le> p \<and> p \<le> 10"
  unfolding size_points_def Let_def
  by (auto split: if_splits dest!: series_mean_lt_range)

lemma feature_points_range: "0 \<le> feature_points r \<and> feature_points r \<le> 15"
  unfolding feature_points_def by simp

lemma recency_points_nonneg: "0 \<le> recency_points now r"
  unfolding recency_points_def by (simp split: option.splits)

lemma context_score_nonneg: "0 \<le> context_score r kw"
  unfolding context_score_def Let_def by simp

lemma score_range: "0 \<le> calculate_madlan_match_score now r kw all \<and>
   calculate_madlan_match_score now r kw all \<le> 100"
proof (cases "price_points r all")
  case None
  then show ?thesis by (simp add: calculate_madlan_match_score_def)
next
  case (Some pp)
  show ?thesis
  proof (cases "size_points r all")
    case None
    then show ?thesis using Some by (simp add: calculate_madlan_match_score_def)
  next
    case sp: (Some sp)
    have "0 \<le> pp + sp + feature_points r + recency_points now r + context_score r kw"
      using price_points_range[OF Some] size_points_range[OF sp] feature_points_range[of r]
        recency_points_nonneg[of now r] context_score_nonneg[of r kw] by linarith
    from py_round1_nonneg[OF this] show ?thesis
      using Some sp by (simp add: calculate_madlan_match_score_def)
  qed
qed

lemma price_points_Some: "\<exists>a. price_points r all = Some a"
  unfolding price_points_def series_mean_lt_def by auto

lemma price_points_mono:
  assumes "property_price r \<le> property_price p"
    "price_points r all = Some a" "price_points p all = Some b"
  shows "b \<le> a"
proof (cases "length all > 1")
  case True
  then obtain x y where x: "series_mean_lt (map property_price all) (property_price r) = Some x"
    and y: "series_mean_lt (map property_price all) (property_price p) = Some y"
    and ab: "a = 15 * (1 - x)" "b = 15 * (1 - y)"
    using assms(2,3) unfolding price_points_def by auto
  from series_mean_lt_mono[OF assms(1) x y] show ?thesis using ab by simp
next
  case False
  then show ?thesis using assms(2,3) unfolding price_points_def by simp
qed

lemma size_points_None:
  "size_points r all = None \<longleftrightarrow> (all = [] \<and> 0 < property_builded_area r)"
  unfolding size_points_def series_mean_lt_def Let_def by auto

lemma size_points_mono:
  assumes "property_builded_area p \<le> property_builded_area r"
    "size_points r all = Some a" "size_points p all = Some b"
  shows "b \<le> a"
proof (cases "0 < property_builded_area p")
  case True
  then have r: "0 < property_builded_area r" using assms(1) by linarith
  obtain x y where x: "series_mean_lt (map property_builded_area all) (property_builded_area p) = Some x"
    and y: "series_mean_lt (map property_builded_area all) (property_builded_area r) = Some y"
    and ab: "b = 10 * x" "a = 10 * y"
    using assms(2,3) True r unfolding size_points_def Let_def by auto
  from series_mean_lt_mono[OF assms(1) x y] show ?thesis using ab by simp
next
  case False
  then have "b = 0" using assms(3) unfolding size_points_def Let_def by simp
  then show ?thesis using size_points_range[OF assms(2)] by simp
qed

lemma recency_points_mono:
  assumes "publish_date r = Some dr" "publish_date p = Some dp" "dp \<le> dr"
  shows "recency_points now p \<le> recency_points now r"
proof -
  have "days_old now dr \<le> days_old now dp"
    unfolding days_old_def using assms(3) by (intro zdiv_mono1) simp_all
  then have "real_of_int (days_old now dr) \<le> real_of_int (days_old now dp)" by simp
  then show ?thesis unfolding recency_points_def using assms(1,2)
    by (simp add: divide_right_mono)
qed

lemma context_score_mono:
  assumes "kw_near_schools kw \<longrightarrow> nearest_school_distance_km r \<le> nearest_school_distance_km p"
  shows "context_score p kw \<le> context_score r kw"
  using assms unfolding context_score_def Let_def by (auto intro: min.coboundedI2)

lemma dominant_scores_more:
  assumes dom: "spec_dominates r p"
    and near: "kw_near_schools kw \<longrightarrow> nearest_school_distance_km r \<le> nearest_school_distance_km p"
  shows "calculate_madlan_match_score now p kw all \<le> calculate_madlan_match_score now r kw all"
proof -
  obtain dr dp where dates: "publish_date r = Some dr" "publish_date p = Some dp" "dp < dr"
    using dom unfolding spec_dominates_def by (auto split: option.splits)
  have price: "property_price r \<le> property_price p"
    and area: "property_builded_area p \<le> property_builded_area r"
    and feat: "feature_points r = 15"
    using dom unfolding spec_dominates_def feature_points_def by auto
  obtain a where a: "price_points r all = Some a" using price_points_Some by blast
  obtain b where b: "price_points p all = Some b" using price_points_Some by blast
  show ?thesis
  proof (cases "size_points r all")
    case None
    then have "calculate_madlan_match_score now r kw all = 100"
      by (simp add: calculate_madlan_match_score_def a)
    then show ?thesis using score_range[of now p kw all] by simp
  next
    case (Some c)
    have "size_points p all \<noteq> None"
      using Some area size_points_None[of r all] size_points_None[of p all] by auto
    then obtain d where d: "size_points p all = Some d" by blast
    have "b + d + feature_points p + recency_points now p + context_score p kw
        \<le> a + c + feature_points r + recency_points now r + context_score r kw"
      using price_points_mono[OF price a b] size_points_mono[OF area Some d]
        feature_points_range[of p] feat
        recency_points_mono[OF dates(1,2), of now] dates(3)
        context_score_mono[OF near] by linarith
    from py_round1_mono[OF this] show ?thesis
      by (simp add: calculate_madlan_match_score_def a b Some d min.coboundedI2)
  qed
qed

subsection \<open>Rounding to a double\<close>













subsection \<open>The search, step by step\<close>

lemma fold_filter_if:
  assumes "r < next_ref st" "r \<noteq> df"
  shows "case fold (\<lambda>(condition, keep, description). filter_if condition keep description)
                blocks (df, ds, st) of
           (df', ds', st') \<Rightarrow>
             frame_of st' df' = run_blocks blocks (frame_of st df) \<and>
             ds' = ds @ block_descriptions blocks \<and>
             frames st' r = frames st r \<and> r < next_ref st' \<and> r \<noteq> df'"
  using assms
proof (induction blocks arbitrary: df ds st)
  case Nil
  then show ?case by (simp add: run_blocks_def block_descriptions_def)
next
  case (Cons b blocks)
  let ?F = "\<lambda>(condition, keep, description). filter_if condition keep description"
  obtain c keep d where b: "b = (c, keep, d)" by (cases b)
  show ?case
  proof (cases c)
    case True
    let ?st = "st\<lparr>frames := (frames st)(next_ref st \<mapsto> filter keep (frame_of st df)),
                   next_ref := Suc (next_ref st)\<rparr>"
    have step: "fold ?F (b # blocks) (df, ds, st) = fold ?F blocks (next_ref st, ds @ [d], ?st)"
      using True by (simp add: b filter_if_def df_getitem_mask_def new_frame_def)
    have pre: "r < next_ref ?st" "r \<noteq> next_ref st" using Cons.prems by simp_all
    have f1: "frame_of ?st (next_ref st) = filter keep (frame_of st df)"
      by (simp add: frame_of_def)
    have f2: "frames ?st r = frames st r" using pre by simp
    have r1: "run_blocks (b # blocks) (frame_of st df)
                = run_blocks blocks (filter keep (frame_of st df))"
      using True by (simp add: b run_blocks_def)
    have r2: "ds @ block_descriptions (b # blocks) = (ds @ [d]) @ block_descriptions blocks"
      using True by (simp add: b block_descriptions_def)
    show ?thesis
      unfolding step r1 r2 using Cons.IH[OF pre, of "ds @ [d]"] unfolding f1 f2 .
  next
    case False
    have step: "fold ?F (b # blocks) (df, ds, st) = fold ?F blocks (df, ds, st)"
      using False by (simp add: b filter_if_def)
    have r1: "run_blocks (b # blocks) (frame_of st df) = run_blocks blocks (frame_of st df)"
      using False by (simp add: b run_blocks_def)
    have r2: "block_descriptions (b # blocks) = block_descriptions blocks"
      using False by (simp add: b block_descriptions_def)
    show ?thesis
      unfolding step r1 r2 using Cons.IH[OF Cons.prems, of ds] .
  qed
qed

text \<open>The result of a search and its effect on the store, on a well-formed store.\<close>

lemma search_properties_unfold:
  assumes wf: "well_formed self st"
  shows "fst (search_properties sv now self kw st) =
           (let page = py_head (case kw_limit kw of None \<Rightarrow> 10 | Some n \<Rightarrow> n)
                         (sv (scored_pool now kw (dataset self st)))
            in \<lparr> properties = page,
                 filters = block_descriptions
                             (filter_blocks kw (detect_query_intent_and_amenities kw)),
                 total_found = length page,
                 search_params = kw,
                 market_stats = market_stats_of page,
                 intent_data = detect_query_intent_and_amenities kw \<rparr>)"
    and "frames (snd (search_properties sv now self kw st)) (properties_df self)
           = frames st (properties_df self)"
    and "well_formed self (snd (search_properties sv now self kw st))"
proof -
  let ?r = "properties_df self"
  let ?F = "\<lambda>(condition, keep, description). filter_if condition keep description"
  let ?blocks = "filter_blocks kw (detect_query_intent_and_amenities kw)"
  let ?st1 = "st\<lparr>frames := (frames st)(next_ref st \<mapsto> frame_of st ?r),
                  next_ref := Suc (next_ref st)\<rparr>"
  let ?st2 = "df_setitem (next_ref st) (map fix_boolean_cols) ?st1"
  have r: "?r < next_ref st" using wf by (simp add: well_formed_def)
  obtain df ds st3 where fold: "fold ?F ?blocks (next_ref st, [], ?st2) = (df, ds, st3)"
    by (cases "fold ?F ?blocks (next_ref st, [], ?st2)")
  have pre: "?r < next_ref ?st2" "?r \<noteq> next_ref st"
    using r by (simp_all add: df_setitem_def)
  have f0: "frame_of ?st2 (next_ref st) = map fix_boolean_cols (frame_of st ?r)"
    by (simp add: df_setitem_def frame_of_def)
  have fr0: "frames ?st2 ?r = frames st ?r"
    using r by (simp add: df_setitem_def)
  from fold_filter_if[OF pre, of ?blocks "[]"] fold
  have inv: "frame_of st3 df = filtered_pool kw (frame_of st ?r)"
       "ds = block_descriptions ?blocks" "frames st3 ?r = frames st ?r"
       "?r < next_ref st3" "?r \<noteq> df"
    by (simp_all add: f0 fr0 filtered_pool_def)
  have data: "frame_of st3 ?r = frame_of st ?r"
    using inv(3) by (simp add: frame_of_def)
  have sp: "search_properties sv now self kw st =
     (let match_scores = map (\<lambda>row. calculate_madlan_match_score now row kw (frame_of st3 ?r))
                             (frame_of st3 df);
          st4 = df_setitem df (set_scores match_scores) st3;
          (df_sorted, st5) = df_sort_values sv df st4;
          limit = (case kw_limit kw of None \<Rightarrow> 10 | Some n \<Rightarrow> n);
          (df_page, st6) = df_head limit df_sorted st5;
          page = frame_of st6 df_page
      in (\<lparr> properties = page, filters = ds, total_found = length page, search_params = kw,
            market_stats = market_stats_of page,
            intent_data = detect_query_intent_and_amenities kw \<rparr>, st6))"
    by (simp add: search_properties_def df_copy_def new_frame_def Let_def fold)
  show "fst (search_properties sv now self kw st) =
           (let page = py_head (case kw_limit kw of None \<Rightarrow> 10 | Some n \<Rightarrow> n)
                         (sv (scored_pool now kw (dataset self st)))
            in \<lparr> properties = page,
                 filters = block_descriptions
                             (filter_blocks kw (detect_query_intent_and_amenities kw)),
                 total_found = length page,
                 search_params = kw,
                 market_stats = market_stats_of page,
                 intent_data = detect_query_intent_and_amenities kw \<rparr>)"
    unfolding sp
    by (simp add: Let_def df_sort_values_def df_head_def new_frame_def df_setitem_def frame_of_def
        inv(1)[unfolded frame_of_def] data[unfolded frame_of_def] inv(2) scored_pool_def
        dataset_def)
  show "frames (snd (search_properties sv now self kw st)) ?r = frames st ?r"
    unfolding sp using inv(3,4,5)
    by (simp add: Let_def df_sort_values_def df_head_def new_frame_def df_setitem_def)
  show "well_formed self (snd (search_properties sv now self kw st))"
    unfolding sp using inv(4)
    by (simp add: Let_def df_sort_values_def df_head_def new_frame_def df_setitem_def
        well_formed_def)
qed

lemma search_properties_page:
  "well_formed self st \<Longrightarrow>
   properties (fst (search_properties sv now self kw st)) =
     py_head (case kw_limit kw of None \<Rightarrow> 10 | Some n \<Rightarrow> n)
       (sv (scored_pool now kw (dataset self st)))"
  by (simp add: search_properties_unfold(1) Let_def)

lemma search_properties_filters:
  "well_formed self st \<Longrightarrow>
   filters (fst (search_properties sv now self kw st)) =
     block_descriptions (filter_blocks kw (detect_query_intent_and_amenities kw))"
  by (simp add: search_properties_unfold(1) Let_def)

lemma search_properties_stats:
  "well_formed self st \<Longrightarrow>
   market_stats (fst (search_properties sv now self kw st)) =
     market_stats_of (properties (fst (search_properties sv now self kw st))) \<and>
   total_found (fst (search_properties sv now self kw st)) =
     length (properties (fst (search_properties sv now self kw st)))"
  by (simp add: search_properties_unfold(1) Let_def)

subsection \<open>Pools\<close>

lemma run_blocks_set:
  "set (run_blocks blocks f) = {r \<in> set f. \<forall>(c, keep, d) \<in> set blocks. c \<longrightarrow> keep r}"
  unfolding run_blocks_def
proof (induction blocks arbitrary: f)
  case Nil
  then show ?case by simp
next
  case (Cons b blocks)
  obtain c keep d where b: "b = (c, keep, d)" by (cases b)
  show ?case by (auto simp: b Cons.IH)
qed

lemma block_descriptions_set:
  "set (block_descriptions blocks) = {d. \<exists>c keep. (c, keep, d) \<in> set blocks \<and> c}"
  unfolding block_descriptions_def by force

lemma py_head_subset: "set (py_head n xs) \<subseteq> set xs"
  unfolding py_head_def by (auto dest: in_set_takeD)

lemma set_scores_map:
  "set_scores (map g f) f = map (\<lambda>r. r\<lparr>madlan_match_score := Some (g r)\<rparr>) f"
  unfolding set_scores_def by (induction f) simp_all

lemma scored_pool_eq:
  "scored_pool now kw data =
     map (\<lambda>r. r\<lparr>madlan_match_score := Some (calculate_madlan_match_score now r kw data)\<rparr>)
         (filtered_pool kw data)"
  by (simp only: scored_pool_def set_scores_map)

lemma score_ignores_score_column:
  "calculate_madlan_match_score now (r\<lparr>madlan_match_score := x\<rparr>) kw all =
   calculate_madlan_match_score now r kw all"
proof -
  have "price_points (r\<lparr>madlan_match_score := x\<rparr>) all = price_points r all"
    by (simp add: price_points_def)
  moreover have "size_points (r\<lparr>madlan_match_score := x\<rparr>) all = size_points r all"
    by (simp add: size_points_def)
  moreover have "feature_points (r\<lparr>madlan_match_score := x\<rparr>) = feature_points r"
    by (simp add: feature_points_def)
  moreover have "recency_points now (r\<lparr>madlan_match_score := x\<rparr>) = recency_points now r"
    by (simp add: recency_points_def)
  moreover have "context_score (r\<lparr>madlan_match_score := x\<rparr>) kw = context_score r kw"
    by (simp add: context_score_def)
  ultimately show ?thesis
    unfolding calculate_madlan_match_score_def by (simp only:)
qed

lemma page_rows:
  assumes "well_formed self st" "\<forall>f. set (sv f) \<subseteq> set f"
    "row \<in> set (properties (fst (search_properties sv now self kw st)))"
  shows "\<exists>r \<in> set (filtered_pool kw (dataset self st)).
           row = r\<lparr>madlan_match_score :=
                      Some (calculate_madlan_match_score now r kw (dataset self st))\<rparr>"
proof -
  let ?F = "\<lambda>r. r\<lparr>madlan_match_score :=
                      Some (calculate_madlan_match_score now r kw (dataset self st))\<rparr>"
  have "row \<in> set (py_head (case kw_limit kw of None \<Rightarrow> 10 | Some n \<Rightarrow> n)
                 (sv (scored_pool now kw (dataset self st))))"
    using assms(3) by (simp only: search_properties_page[OF assms(1)])
  then have "row \<in> set (sv (scored_pool now kw (dataset self st)))"
    by (rule subsetD[OF py_head_subset])
  then have "row \<in> set (scored_pool now kw (dataset self st))"
    by (rule subsetD[OF spec[OF assms(2)]])
  then have "row \<in> ?F ` set (filtered_pool kw (dataset self st))"
    by (simp only: scored_pool_eq set_map)
  then show ?thesis by (rule imageE) (rule bexI)
qed

subsection \<open>Insertion sort\<close>

lemma set_insert_desc: "set (insert_desc r xs) = insert r (set xs)"
  by (induction xs) auto

lemma set_insertion_sort_values: "set (insertion_sort_values f) = set f"
  unfolding insertion_sort_values_def by (induction f) (simp_all add: set_insert_desc)

section \<open>Properties\<close>

subsection \<open>Classification by price\<close>

text \<open>
  C8. Every price below 100,000 is classified \<^verbatim>\<open>To Let\<close> and every price of 100,000 or more
  \<^verbatim>\<open>For Sale\<close>; in particular 1,500,000 is for sale, 8,000 is to let, and the boundary value
  100,000 itself is for sale.
\<close>

theorem classify_transaction_type_threshold:
  "(price < 100000 \<longrightarrow> classify_transaction_type price = ''To Let'') \<and>
   (100000 \<le> price \<longrightarrow> classify_transaction_type price = ''For Sale'') \<and>
   classify_transaction_type 1500000 = ''For Sale'' \<and>
   classify_transaction_type 8000 = ''To Let'' \<and>
   classify_transaction_type 100000 = ''For Sale''"
  by (simp add: classify_transaction_type_def)

theorem classify_transaction_type_threshold_witness:
  "(99999.5::real) < 100000 \<and> classify_transaction_type 99999.5 = ''To Let''"
  using classify_transaction_type_threshold [of "99999.5"] by simp

subsection \<open>Price per square metre\<close>






subsection \<open>Walking time\<close>











subsection \<open>Range of the match score, and the best record of a pool\<close>

lemma exp_minus_3: "exp (- 3 :: real) \<le> 1/4"
proof -
  have "(4::real) \<le> exp 3" using exp_ge_add_one_self[of "3::real"] by simp
  then have "inverse (exp (3::real)) \<le> inverse 4" by (intro le_imp_inverse_le) simp_all
  then show ?thesis by (simp add: exp_minus)
qed

text \<open>
  C4 as stated: a record that is strictly cheaper, larger and newer than its peer and fully
  featured scores the maximum of the pool. When proximity to schools is requested, up to 50
  points go to the distance to the nearest school, which the comparison does not mention:
  the listing 1.5 km from a school scores at most 57.5, its peer next to a school 72.5.
\<close>

theorem dominant_record_can_score_less:
  "spec_dominates far_listing near_listing \<and>
   calculate_madlan_match_score 34560000 far_listing near_schools_kwargs
     [far_listing, near_listing]
   < calculate_madlan_match_score 34560000 near_listing near_schools_kwargs
       [far_listing, near_listing]"
proof -
  have near: "calculate_madlan_match_score 34560000 near_listing near_schools_kwargs
          [far_listing, near_listing] = 72.5"
    by (simp add: calculate_madlan_match_score_def price_points_def size_points_def
        feature_points_def recency_points_def context_score_def series_mean_lt_def days_old_def
        far_listing_def near_listing_def near_schools_kwargs_def no_kwargs_def py_round1_def
        round_half_even_def Let_def)
  have pp: "price_points far_listing [far_listing, near_listing] = Some 15"
    by (simp add: price_points_def series_mean_lt_def far_listing_def near_listing_def)
  have sp: "size_points far_listing [far_listing, near_listing] = Some 5"
    by (simp add: size_points_def series_mean_lt_def far_listing_def near_listing_def Let_def)
  have fp: "feature_points far_listing = 15"
    by (simp add: feature_points_def far_listing_def)
  have rp: "recency_points 34560000 far_listing = 10"
    by (simp add: recency_points_def days_old_def far_listing_def)
  have cs: "context_score far_listing near_schools_kwargs \<le> 12.5"
    using exp_minus_3
    by (simp add: context_score_def far_listing_def near_schools_kwargs_def no_kwargs_def Let_def
        min.coboundedI2)
  have "py_round1 (15 + 5 + 15 + 10 + context_score far_listing near_schools_kwargs)
          \<le> py_round1 57.5"
    using cs by (intro py_round1_mono) simp
  moreover have "py_round1 57.5 = 57.5"
    by (simp add: py_round1_def round_half_even_def Let_def)
  ultimately have far: "calculate_madlan_match_score 34560000 far_listing near_schools_kwargs
          [far_listing, near_listing] \<le> 57.5"
    by (simp add: calculate_madlan_match_score_def pp sp fp rp min.coboundedI2)
  have dom: "spec_dominates far_listing near_listing"
    by (simp add: spec_dominates_def far_listing_def near_listing_def)
  show ?thesis using near far dom by simp
qed

text \<open>
  C4 as the code has it: the match score of every record, request and pool lies in [0,100];
  and a record that is strictly cheaper, strictly larger, strictly newer (both publish dates
  parsing) and fully featured compared with every peer of a pool, and, when proximity to
  schools is requested, at least as close to its nearest school as every peer, scores the
  maximum of the pool.
\<close>

theorem match_score_range_and_dominance:
  "0 \<le> calculate_madlan_match_score now r kw all \<and>
   calculate_madlan_match_score now r kw all \<le> 100 \<and>
   ((\<forall>p \<in> set pool. p \<noteq> r \<longrightarrow>
        spec_dominates r p \<and>
        (kw_near_schools kw \<longrightarrow>
           nearest_school_distance_km r \<le> nearest_school_distance_km p)) \<longrightarrow>
    (\<forall>p \<in> set pool. calculate_madlan_match_score now p kw all
                       \<le> calculate_madlan_match_score now r kw all))"
proof -
  have "calculate_madlan_match_score now p kw all \<le> calculate_madlan_match_score now r kw all"
    if h: "\<forall>p \<in> set pool. p \<noteq> r \<longrightarrow>
        spec_dominates r p \<and>
        (kw_near_schools kw \<longrightarrow>
           nearest_school_distance_km r \<le> nearest_school_distance_km p)"
      and p: "p \<in> set pool" for p
  proof (cases "p = r")
    case True
    then show ?thesis by simp
  next
    case False
    with h p have "spec_dominates r p"
      "kw_near_schools kw \<longrightarrow> nearest_school_distance_km r \<le> nearest_school_distance_km p"
      by simp_all
    then show ?thesis by (rule dominant_scores_more)
  qed
  then show ?thesis using score_range[of now r kw all] by simp
qed

theorem match_score_range_and_dominance_witness:
  "spec_dominates far_listing near_listing \<and>
   \<not> kw_near_schools no_kwargs \<and>
   calculate_madlan_match_score 34560000 near_listing no_kwargs [far_listing, near_listing]
     \<le> calculate_madlan_match_score 34560000 far_listing no_kwargs [far_listing, near_listing] \<and>
   calculate_madlan_match_score 34560000 far_listing no_kwargs [far_listing, near_listing] \<le> 100"
proof -
  have dom: "spec_dominates far_listing near_listing"
    by (simp add: spec_dominates_def far_listing_def near_listing_def)
  have nn: "\<not> kw_near_schools no_kwargs" by (simp add: no_kwargs_def)
  have hyp: "\<forall>p \<in> set [far_listing, near_listing]. p \<noteq> far_listing \<longrightarrow>
        spec_dominates far_listing p \<and>
        (kw_near_schools no_kwargs \<longrightarrow>
           nearest_school_distance_km far_listing \<le> nearest_school_distance_km p)"
    using dom nn by simp
  show ?thesis
    using match_score_range_and_dominance
      [of 34560000 far_listing no_kwargs "[far_listing, near_listing]"
          "[far_listing, near_listing]"] hyp dom nn
    by simp
qed

subsection \<open>The built-in listings under a search\<close>

lemma detect_no_text:
  "kw_query_text kw = None \<Longrightarrow>
   detected_transaction (detect_query_intent_and_amenities kw) = None"
  by (simp add: detect_query_intent_and_amenities_def str_lower_def any_in_def
      transaction_keywords_def Let_def)

lemma well_formed_fallback: "well_formed fallback_server fallback_store"
  by (simp add: well_formed_def fallback_server_def fallback_store_def)

lemma dataset_fallback: "dataset fallback_server fallback_store = fallback_data"
  by (simp add: dataset_def frame_of_def fallback_server_def fallback_store_def)

lemma insertion_sort_values_subset: "\<forall>f. set (insertion_sort_values f) \<subseteq> set f"
  by (simp add: set_insertion_sort_values)

lemma filtered_pool_under_1500000:
  "filtered_pool under_1500000 fallback_data = [hd fallback_data]"
  by (simp add: filtered_pool_def run_blocks_def filter_blocks_def detect_no_text
      under_1500000_def no_kwargs_def truthy_str_def truthy_num_def fallback_data_def
      fix_boolean_cols_def fix_boolean_def py_str_bool_def str_lower_def char_lower_def Let_def)

lemma score_over_dataset:
  "calculate_madlan_match_score 1743292800 (hd fallback_data) under_1500000 fallback_data = 66.7"
  by (simp add: calculate_madlan_match_score_def price_points_def size_points_def
      feature_points_def recency_points_def context_score_def series_mean_lt_def days_old_def
      fallback_data_def under_1500000_def no_kwargs_def py_round1_def
      round_half_even_def Let_def)

lemma score_over_filtered_pool:
  "calculate_madlan_match_score 1743292800 (hd fallback_data) under_1500000 [hd fallback_data]
     = 45"
  by (simp add: calculate_madlan_match_score_def price_points_def size_points_def
      feature_points_def recency_points_def context_score_def series_mean_lt_def days_old_def
      fallback_data_def under_1500000_def no_kwargs_def py_round1_def
      round_half_even_def Let_def)

lemma page_under_1500000:
  "properties (fst (search_properties insertion_sort_values 1743292800 fallback_server
                      under_1500000 fallback_store))
   = [(hd fallback_data)\<lparr>madlan_match_score := Some 66.7\<rparr>]"
proof -
  have "kw_limit under_1500000 = None" by (simp add: under_1500000_def no_kwargs_def)
  then show ?thesis
    by (simp add: search_properties_page[OF well_formed_fallback] dataset_fallback
        scored_pool_eq filtered_pool_under_1500000 score_over_dataset
        insertion_sort_values_def py_head_def)
qed

subsection \<open>The pool behind the percentile ranks\<close>

text \<open>
  C2 as stated: the percentile ranks of the match score are taken over the filtered candidate
  pool. On the built-in listings with a price ceiling of 1,500,000 one listing passes the
  filter; the search scores it 66.7, its ranks taken among all three listings, while its
  score over the filtered pool of one is 45.
\<close>

theorem scores_not_over_filtered_pool:
  "map madlan_match_score
     (properties (fst (search_properties insertion_sort_values 1743292800 fallback_server
                         under_1500000 fallback_store))) = [Some 66.7] \<and>
   map (\<lambda>r. calculate_madlan_match_score 1743292800 r under_1500000
               (filtered_pool under_1500000 fallback_data))
       (filtered_pool under_1500000 fallback_data) = [45]"
  by (simp add: page_under_1500000 filtered_pool_under_1500000 score_over_filtered_pool)

text \<open>
  C2 as the code has it: the match score of every record of the result is computed with the
  percentile ranks taken over the whole loaded data set \<^verbatim>\<open>self.properties_df\<close>, before any
  filter; not over the filtered pool and not over the truncated page.
\<close>

theorem scores_use_whole_dataset:
  assumes "well_formed self st" and "\<forall>f. set (sv f) \<subseteq> set f"
  shows "\<forall>row \<in> set (properties (fst (search_properties sv now self kw st))).
           madlan_match_score row =
             Some (calculate_madlan_match_score now row kw (dataset self st))"
proof
  fix row
  assume "row \<in> set (properties (fst (search_properties sv now self kw st)))"
  from page_rows[OF assms this]
  obtain r where "row = r\<lparr>madlan_match_score :=
                      Some (calculate_madlan_match_score now r kw (dataset self st))\<rparr>"
    by (rule bexE)
  then show "madlan_match_score row =
             Some (calculate_madlan_match_score now row kw (dataset self st))"
    by (simp add: score_ignores_score_column)
qed

theorem scores_use_whole_dataset_witness:
  "well_formed fallback_server fallback_store \<and>
   (\<forall>f. set (insertion_sort_values f) \<subseteq> set f) \<and>
   properties (fst (search_properties insertion_sort_values 1743292800 fallback_server
                      under_1500000 fallback_store)) \<noteq> [] \<and>
   map madlan_match_score
     (properties (fst (search_properties insertion_sort_values 1743292800 fallback_server
                         under_1500000 fallback_store)))
   = map (\<lambda>row. Some (calculate_madlan_match_score 1743292800 row under_1500000 fallback_data))
       (properties (fst (search_properties insertion_sort_values 1743292800 fallback_server
                           under_1500000 fallback_store)))"
proof -
  have "map madlan_match_score
     (properties (fst (search_properties insertion_sort_values 1743292800 fallback_server
                         under_1500000 fallback_store)))
   = map (\<lambda>row. Some (calculate_madlan_match_score 1743292800 row under_1500000
                         (dataset fallback_server fallback_store)))
       (properties (fst (search_properties insertion_sort_values 1743292800 fallback_server
                           under_1500000 fallback_store)))"
    using scores_use_whole_dataset[OF well_formed_fallback insertion_sort_values_subset,
            of 1743292800 under_1500000]
    by (simp only: map_eq_conv)
  then show ?thesis
    using well_formed_fallback insertion_sort_values_subset
    by (simp add: dataset_fallback page_under_1500000)
qed

subsection \<open>The statistics of a result\<close>

lemma series_min_eq_Min:
  assumes "column \<noteq> []"
  shows "series_min column = Min (set column)"
proof (cases column)
  case Nil
  then show ?thesis using assms by simp
next
  case (Cons a list)
  then show ?thesis unfolding series_min_def using Min.set_eq_fold[of a list] by simp
qed

lemma series_max_eq_Max:
  assumes "column \<noteq> []"
  shows "series_max column = Max (set column)"
proof (cases column)
  case Nil
  then show ?thesis using assms by simp
next
  case (Cons a list)
  then show ?thesis unfolding series_max_def using Max.set_eq_fold[of a list] by simp
qed

text \<open>
  C3. The statistics of a result are computed over the returned page, that is the scored
  candidates after sorting and after truncation to the limit: the mean price is the sum of
  the prices of the page by its length (its integer part), the least and the greatest price
  are the minimum and the maximum over the page, the mean built area is the mean over the
  page rounded to a tenth, and \<^verbatim>\<open>total_found\<close> is the length of the page. On an empty page
  all four statistics are 0.
\<close>

theorem market_stats_over_returned_page:
  assumes "well_formed self st"
  shows "(let result = fst (search_properties sv now self kw st);
              page = properties result;
              prices = map property_price page;
              areas = map property_builded_area page
          in page = py_head (case kw_limit kw of None \<Rightarrow> 10 | Some n \<Rightarrow> n)
                      (sv (scored_pool now kw (dataset self st))) \<and>
             total_found result = length page \<and>
             (page = [] \<longrightarrow>
                market_stats result
                  = \<lparr> avg_price = 0, min_price = 0, max_price = 0, avg_area = 0 \<rparr>) \<and>
             (page \<noteq> [] \<longrightarrow>
                market_stats result
                  = \<lparr> avg_price = py_int (sum_list prices / real (length page)),
                      min_price = py_int (Min (set prices)),
                      max_price = py_int (Max (set prices)),
                      avg_area = py_round1 (sum_list areas / real (length page)) \<rparr>))"
proof -
  let ?page = "properties (fst (search_properties sv now self kw st))"
  have ne: "map property_price ?page \<noteq> []" if "?page \<noteq> []" using that by simp
  have "market_stats_of ?page
          = \<lparr> avg_price = py_int (sum_list (map property_price ?page) / real (length ?page)),
              min_price = py_int (Min (set (map property_price ?page))),
              max_price = py_int (Max (set (map property_price ?page))),
              avg_area = py_round1 (sum_list (map property_builded_area ?page)
                                      / real (length ?page)) \<rparr>"
    if "?page \<noteq> []"
    using that series_min_eq_Min[OF ne[OF that]] series_max_eq_Max[OF ne[OF that]]
    by (simp add: market_stats_of_def series_mean_def)
  moreover have "market_stats_of ?page
          = \<lparr> avg_price = 0, min_price = 0, max_price = 0, avg_area = 0 \<rparr>" if "?page = []"
    using that by (simp add: market_stats_of_def)
  ultimately show ?thesis
    using search_properties_page[OF assms, of sv now kw]
      search_properties_stats[OF assms, of sv now kw]
    by (simp add: Let_def)
qed

text \<open>
  On the built-in listings with a limit of two, the page holds the listings at 1,290,000 and
  1,590,000 and the statistics are theirs; the third candidate, at 1,750,000, is in the
  filtered pool and in none of them.
\<close>

lemma first_two_fields:
  "kw_query_text first_two = None" "kw_limit first_two = Some 2" "\<not> kw_near_schools first_two"
  by (simp_all add: first_two_def no_kwargs_def)

lemma filtered_pool_first_two: "filtered_pool first_two fallback_data = fallback_data"
  by (simp add: filtered_pool_def run_blocks_def filter_blocks_def detect_no_text
      first_two_def no_kwargs_def truthy_str_def truthy_num_def fallback_data_def
      fix_boolean_cols_def fix_boolean_def py_str_bool_def str_lower_def char_lower_def Let_def)

lemma scores_first_two:
  "map (\<lambda>r. calculate_madlan_match_score 1743292800 r first_two fallback_data) fallback_data
     = [66.7, 53.5, 51.3]"
  by (simp add: calculate_madlan_match_score_def price_points_def size_points_def
      feature_points_def recency_points_def context_score_def series_mean_lt_def days_old_def
      fallback_data_def first_two_def no_kwargs_def py_round1_def
      round_half_even_def Let_def)

lemma page_first_two:
  "properties (fst (search_properties insertion_sort_values 1743292800 fallback_server
                      first_two fallback_store))
   = [(fallback_data ! 0)\<lparr>madlan_match_score := Some 66.7\<rparr>,
      (fallback_data ! 1)\<lparr>madlan_match_score := Some 53.5\<rparr>]"
proof -
  have sc: "scored_pool 1743292800 first_two fallback_data =
      [(fallback_data ! 0)\<lparr>madlan_match_score := Some 66.7\<rparr>,
       (fallback_data ! 1)\<lparr>madlan_match_score := Some 53.5\<rparr>,
       (fallback_data ! 2)\<lparr>madlan_match_score := Some 51.3\<rparr>]"
    using scores_first_two
    by (simp add: scored_pool_def filtered_pool_first_two set_scores_def)
       (simp add: fallback_data_def)
  show ?thesis
    by (simp add: search_properties_page[OF well_formed_fallback] dataset_fallback
        first_two_fields sc insertion_sort_values_def score_of_def py_head_def)
qed

theorem market_stats_over_returned_page_witness:
  "well_formed fallback_server fallback_store \<and>
   map property_price
     (properties (fst (search_properties insertion_sort_values 1743292800 fallback_server
                         first_two fallback_store))) = [1290000, 1590000] \<and>
   market_stats (fst (search_properties insertion_sort_values 1743292800 fallback_server
                        first_two fallback_store))
     = \<lparr> avg_price = 1440000, min_price = 1290000, max_price = 1590000, avg_area = 84 \<rparr> \<and>
   total_found (fst (search_properties insertion_sort_values 1743292800 fallback_server
                        first_two fallback_store)) = 2 \<and>
   map property_price (filtered_pool first_two fallback_data) = [1290000, 1590000, 1750000]"
proof -
  let ?result = "fst (search_properties insertion_sort_values 1743292800 fallback_server
                        first_two fallback_store)"
  have prices: "map property_price (properties ?result) = [1290000, 1590000]"
    and areas: "map property_builded_area (properties ?result) = [100, 68]"
    by (simp_all add: page_first_two) (simp_all add: fallback_data_def)
  have ne: "properties ?result \<noteq> []" by (simp add: page_first_two)
  have len: "length (properties ?result) = 2" by (simp add: page_first_two)
  have "market_stats ?result
          = \<lparr> avg_price = py_int (sum_list (map property_price (properties ?result))
                                   / real (length (properties ?result))),
              min_price = py_int (Min (set (map property_price (properties ?result)))),
              max_price = py_int (Max (set (map property_price (properties ?result)))),
              avg_area = py_round1 (sum_list (map property_builded_area (properties ?result))
                                      / real (length (properties ?result))) \<rparr>"
    and tf: "total_found ?result = length (properties ?result)"
    using market_stats_over_returned_page[OF well_formed_fallback,
            of insertion_sort_values 1743292800 first_two] ne
    by (simp_all add: Let_def)
  then have stats: "market_stats ?result
     = \<lparr> avg_price = 1440000, min_price = 1290000, max_price = 1590000, avg_area = 84 \<rparr>"
    unfolding prices areas len
    by (simp add: py_int_def py_round1_def round_half_even_def Let_def)
  have pool: "map property_price (filtered_pool first_two fallback_data)
                = [1290000, 1590000, 1750000]"
    unfolding filtered_pool_first_two by (simp add: fallback_data_def)
  show ?thesis
    using well_formed_fallback prices stats tf len pool by simp
qed

subsection \<open>The data set is read only\<close>

lemma search_properties_store:
  assumes "search_properties sv now self kw st = (res, st')" "well_formed self st"
  shows "frames st' (properties_df self) = frames st (properties_df self)"
  using search_properties_unfold(2)[OF assms(2), of sv now kw] assms(1) by simp

lemma handle_request_try_store:
  assumes "well_formed self st"
  shows "frames (snd (handle_request_try ext now self req st)) (properties_df self)
           = frames st (properties_df self)"
proof -
  have tool: "frames (snd (case search_properties (sort_values ext) now self args st of
             (result, st') \<Rightarrow>
               (if format_mode (intent_data result) = Listings
                then (case format_desktop_optimized ext result
                             (mentioned_amenities (intent_data result)) of
                        Inl e \<Rightarrow> (Inl e, st')
                      | Inr text \<Rightarrow> (Inr (Result rid (ContentText text)), st'))
                else (case dumps_data_response ext result of
                        Inl e \<Rightarrow> (Inl e, st')
                      | Inr text \<Rightarrow> (Inr (Result rid (ContentText text)), st')))))
          (properties_df self) = frames st (properties_df self)" for args rid
  proof -
    obtain res st' where sp: "search_properties (sort_values ext) now self args st = (res, st')"
      by (cases "search_properties (sort_values ext) now self args st")
    have "frames st' (properties_df self) = frames st (properties_df self)"
      by (rule search_properties_store[OF sp assms])
    then show ?thesis by (simp add: sp split: sum.splits)
  qed
  show ?thesis
    unfolding handle_request_try_def Let_def
    by (simp add: tool split: option.splits)
qed

lemma handle_request_store:
  assumes "well_formed self st"
  shows "frames (snd (handle_request ext now self request st)) (properties_df self)
           = frames st (properties_df self)"
proof (cases request)
  case (NonObject ty)
  then show ?thesis by (simp add: handle_request_def)
next
  case (Object req)
  obtain a st' where h: "handle_request_try ext now self req st = (a, st')"
    by (cases "handle_request_try ext now self req st")
  have "frames st' (properties_df self) = frames st (properties_df self)"
    using handle_request_try_store[OF assms, of ext now req] h by simp
  then show ?thesis
    by (cases a) (simp_all add: handle_request_def Object h)
qed

text \<open>
  C9. Handling a search request leaves the data set of the server unchanged: on a well-formed
  store, \<^verbatim>\<open>search_properties\<close> (and \<^verbatim>\<open>handle_request\<close> around it) leaves the frame behind
  \<^verbatim>\<open>self.properties_df\<close> as it was, every change going to the copy and to the frames made
  from it; so the same request, repeated with the same clock, returns the same result. The
  amenity catalogs are literals inside \<^verbatim>\<open>get_nearest_amenities\<close> and no part of the store.
\<close>

theorem search_leaves_dataset_unchanged:
  assumes "well_formed self st"
  shows "dataset self (snd (search_properties sv now self kw st)) = dataset self st \<and>
         well_formed self (snd (search_properties sv now self kw st)) \<and>
         fst (search_properties sv now self kw (snd (search_properties sv now self kw st)))
           = fst (search_properties sv now self kw st) \<and>
         dataset self (snd (handle_request ext now self request st)) = dataset self st"
proof -
  let ?st' = "snd (search_properties sv now self kw st)"
  have d: "dataset self ?st' = dataset self st"
    using search_properties_unfold(2)[OF assms, of sv now kw]
    by (simp add: dataset_def frame_of_def)
  have w: "well_formed self ?st'" by (rule search_properties_unfold(3)[OF assms])
  have "fst (search_properties sv now self kw ?st') = fst (search_properties sv now self kw st)"
    by (simp only: search_properties_unfold(1)[OF w] search_properties_unfold(1)[OF assms] d)
  moreover have "dataset self (snd (handle_request ext now self request st)) = dataset self st"
    using handle_request_store[OF assms, of ext now request]
    by (simp add: dataset_def frame_of_def)
  ultimately show ?thesis using d w by simp
qed

theorem search_leaves_dataset_unchanged_witness:
  "well_formed fallback_server fallback_store \<and>
   dataset fallback_server
     (snd (search_properties insertion_sort_values 1743292800 fallback_server under_1500000
             fallback_store)) = fallback_data \<and>
   properties (fst (search_properties insertion_sort_values 1743292800 fallback_server
      under_1500000
      (snd (search_properties insertion_sort_values 1743292800 fallback_server under_1500000
             fallback_store))))
   = [(hd fallback_data)\<lparr>madlan_match_score := Some 66.7\<rparr>]"
  using search_leaves_dataset_unchanged[OF well_formed_fallback,
          of insertion_sort_values 1743292800 under_1500000]
    well_formed_fallback
  by (simp add: dataset_fallback page_under_1500000)

subsection \<open>Explicit and detected transaction type\<close>

lemma detect_transaction_values:
  "detect_transaction table query_text = Some d \<Longrightarrow> d = ''For Sale'' \<or> d = ''To Let''"
  by (induction table query_text rule: detect_transaction.induct) (auto split: if_splits)

lemma detected_transaction_truthy:
  "detected_transaction (detect_query_intent_and_amenities kw) = Some d \<Longrightarrow>
   truthy_str (Some d)"
  by (auto simp: detect_query_intent_and_amenities_def Let_def truthy_str_def
           dest: detect_transaction_values)

lemma filtered_pool_keeps:
  assumes "(c, keep, d) \<in> set (filter_blocks kw (detect_query_intent_and_amenities kw))"
    "c" "r \<in> set (filtered_pool kw data)"
  shows "keep r"
  using assms unfolding filtered_pool_def run_blocks_set by fastforce

lemma explicit_block:
  "(truthy_str (kw_transaction_type kw),
    (\<lambda>r. transaction_type r = the (kw_transaction_type kw)),
    TransactionTypeFilter (the (kw_transaction_type kw))) \<in> set (filter_blocks kw i)"
  by (simp add: filter_blocks_def Let_def)

lemma detected_block:
  "(truthy_str (detected_transaction i) \<and> \<not> truthy_str (kw_transaction_type kw),
    (\<lambda>r. transaction_type r = the (detected_transaction i)),
    AutoDetected (the (detected_transaction i))) \<in> set (filter_blocks kw i)"
  by (simp add: filter_blocks_def Let_def)

lemma auto_detected_only_without_explicit:
  "AutoDetected d \<in> set (block_descriptions (filter_blocks kw i)) \<Longrightarrow>
   \<not> truthy_str (kw_transaction_type kw)"
  unfolding block_descriptions_set by (auto simp: filter_blocks_def Let_def)

lemma transaction_type_filter_only_explicit:
  "TransactionTypeFilter t \<in> set (block_descriptions (filter_blocks kw i)) \<Longrightarrow>
   truthy_str (kw_transaction_type kw)"
  unfolding block_descriptions_set by (auto simp: filter_blocks_def Let_def)

lemma query_text_irrelevant:
  assumes "truthy_str (kw_transaction_type kw)"
  shows "filtered_pool (kw\<lparr>kw_query_text := q\<rparr>) data = filtered_pool kw data"
    and "block_descriptions (filter_blocks (kw\<lparr>kw_query_text := q\<rparr>)
            (detect_query_intent_and_amenities (kw\<lparr>kw_query_text := q\<rparr>)))
         = block_descriptions (filter_blocks kw (detect_query_intent_and_amenities kw))"
  using assms
  by (simp_all add: filtered_pool_def run_blocks_def block_descriptions_def filter_blocks_def
      Let_def)

lemma score_ignores_query_text:
  "calculate_madlan_match_score now r (kw\<lparr>kw_query_text := q\<rparr>) all =
   calculate_madlan_match_score now r kw all"
proof -
  have "context_score r (kw\<lparr>kw_query_text := q\<rparr>) = context_score r kw"
    by (simp add: context_score_def)
  then show ?thesis unfolding calculate_madlan_match_score_def by (simp only:)
qed

lemma scored_pool_ignores_query_text:
  assumes "truthy_str (kw_transaction_type kw)"
  shows "scored_pool now (kw\<lparr>kw_query_text := q\<rparr>) data = scored_pool now kw data"
  by (simp only: scored_pool_eq query_text_irrelevant(1)[OF assms] score_ignores_query_text)

text \<open>
  C1. When a request carries an explicit transaction type (a string that is not empty), only
  that filter is applied: every returned record has the explicit type, the filter list names
  it and holds no auto-detected entry, and the returned records, the filter list and the
  statistics are the same whatever the query text says, hence whatever type the classifier
  detects. The detected type is applied only when no explicit type is given: then every
  returned record has the detected type, and the filter list holds the auto-detected entry and
  no explicit one. Never both.
\<close>

theorem explicit_transaction_type_overrides_detected:
  assumes wf: "well_formed self st" and sv: "\<forall>f. set (sv f) \<subseteq> set f"
  shows
    "(\<forall>t. kw_transaction_type kw = Some t \<and> t \<noteq> [] \<longrightarrow>
        (\<forall>row \<in> set (properties (fst (search_properties sv now self kw st))).
           transaction_type row = t) \<and>
        TransactionTypeFilter t \<in> set (filters (fst (search_properties sv now self kw st))) \<and>
        (\<forall>d. AutoDetected d \<notin> set (filters (fst (search_properties sv now self kw st)))) \<and>
        (\<forall>q. properties (fst (search_properties sv now self (kw\<lparr>kw_query_text := q\<rparr>) st))
               = properties (fst (search_properties sv now self kw st)) \<and>
             filters (fst (search_properties sv now self (kw\<lparr>kw_query_text := q\<rparr>) st))
               = filters (fst (search_properties sv now self kw st)) \<and>
             market_stats (fst (search_properties sv now self (kw\<lparr>kw_query_text := q\<rparr>) st))
               = market_stats (fst (search_properties sv now self kw st)))) \<and>
     (\<not> truthy_str (kw_transaction_type kw) \<longrightarrow>
        (\<forall>d. detected_transaction (detect_query_intent_and_amenities kw) = Some d \<longrightarrow>
           (\<forall>row \<in> set (properties (fst (search_properties sv now self kw st))).
              transaction_type row = d) \<and>
           AutoDetected d \<in> set (filters (fst (search_properties sv now self kw st))) \<and>
           (\<forall>t. TransactionTypeFilter t
                  \<notin> set (filters (fst (search_properties sv now self kw st))))))"
proof -
  let ?i = "detect_query_intent_and_amenities kw"
  let ?res = "fst (search_properties sv now self kw st)"
  have fl: "filters ?res = block_descriptions (filter_blocks kw ?i)"
    by (rule search_properties_filters[OF wf])
  have rows: "transaction_type row = v"
    if blk: "(c, (\<lambda>r. transaction_type r = v), d) \<in> set (filter_blocks kw ?i)" and c: "c"
      and row: "row \<in> set (properties ?res)" for c v d row
  proof -
    from page_rows[OF wf sv row]
    obtain r where r: "r \<in> set (filtered_pool kw (dataset self st))"
      and eq: "row = r\<lparr>madlan_match_score :=
                  Some (calculate_madlan_match_score now r kw (dataset self st))\<rparr>"
      by (rule bexE)
    have "transaction_type r = v" by (rule filtered_pool_keeps[OF blk c r])
    then show ?thesis by (simp add: eq)
  qed
  have explicit: "(\<forall>row \<in> set (properties ?res). transaction_type row = t) \<and>
        TransactionTypeFilter t \<in> set (filters ?res) \<and>
        (\<forall>d. AutoDetected d \<notin> set (filters ?res)) \<and>
        (\<forall>q. properties (fst (search_properties sv now self (kw\<lparr>kw_query_text := q\<rparr>) st))
               = properties ?res \<and>
             filters (fst (search_properties sv now self (kw\<lparr>kw_query_text := q\<rparr>) st))
               = filters ?res \<and>
             market_stats (fst (search_properties sv now self (kw\<lparr>kw_query_text := q\<rparr>) st))
               = market_stats ?res)"
    if t: "kw_transaction_type kw = Some t" "t \<noteq> []" for t
  proof -
    have tr: "truthy_str (kw_transaction_type kw)" using t by (simp add: truthy_str_def)
    have blk: "(True, (\<lambda>r. transaction_type r = t), TransactionTypeFilter t)
                 \<in> set (filter_blocks kw ?i)"
      using explicit_block[of kw ?i] tr t by simp
    have 1: "\<forall>row \<in> set (properties ?res). transaction_type row = t"
      using rows[OF blk] by simp
    have 2: "TransactionTypeFilter t \<in> set (filters ?res)"
      unfolding fl block_descriptions_set using blk by blast
    have 3: "\<forall>d. AutoDetected d \<notin> set (filters ?res)"
      unfolding fl using auto_detected_only_without_explicit[of _ kw ?i] tr by blast
    have 4: "properties (fst (search_properties sv now self (kw\<lparr>kw_query_text := q\<rparr>) st))
               = properties ?res" for q
      by (simp add: search_properties_page[OF wf] scored_pool_ignores_query_text[OF tr])
    have 5: "filters (fst (search_properties sv now self (kw\<lparr>kw_query_text := q\<rparr>) st))
               = filters ?res" for q
      by (simp only: search_properties_filters[OF wf] query_text_irrelevant(2)[OF tr])
    have 6: "market_stats (fst (search_properties sv now self (kw\<lparr>kw_query_text := q\<rparr>) st))
               = market_stats ?res" for q
      using search_properties_stats[OF wf, of sv now "kw\<lparr>kw_query_text := q\<rparr>"]
        search_properties_stats[OF wf, of sv now kw] 4[of q] by simp
    show ?thesis using 1 2 3 4 5 6 by simp
  qed
  have inferred: "(\<forall>row \<in> set (properties ?res). transaction_type row = d) \<and>
           AutoDetected d \<in> set (filters ?res) \<and>
           (\<forall>t. TransactionTypeFilter t \<notin> set (filters ?res))"
    if nt: "\<not> truthy_str (kw_transaction_type kw)"
      and d: "detected_transaction ?i = Some d" for d
  proof -
    have td: "truthy_str (detected_transaction ?i)"
      using detected_transaction_truthy[OF d] d by simp
    have blk: "(True, (\<lambda>r. transaction_type r = d), AutoDetected d)
                 \<in> set (filter_blocks kw ?i)"
      using detected_block[of ?i kw] td nt d by simp
    have 1: "\<forall>row \<in> set (properties ?res). transaction_type row = d"
      using rows[OF blk] by simp
    have 2: "AutoDetected d \<in> set (filters ?res)"
      unfolding fl block_descriptions_set using blk by blast
    have 3: "\<forall>t. TransactionTypeFilter t \<notin> set (filters ?res)"
      unfolding fl using transaction_type_filter_only_explicit[of _ kw ?i] nt by blast
    show ?thesis using 1 2 3 by simp
  qed
  show ?thesis using explicit inferred by blast
qed

text \<open>
  On the built-in listings, all for sale: with the explicit type \<^verbatim>\<open>For Sale\<close> and a query text
  about renting, all three listings are returned; with the query text alone, none.
\<close>

lemma length_insert_desc: "length (insert_desc r xs) = Suc (length xs)"
  by (induction xs) simp_all

lemma length_insertion_sort_values: "length (insertion_sort_values f) = length f"
  unfolding insertion_sort_values_def by (induction f) (simp_all add: length_insert_desc)

lemma detect_rent_query:
  "detected_transaction (detect_query_intent_and_amenities rent_query) = Some ''To Let''"
  "detected_transaction (detect_query_intent_and_amenities sale_filter_rent_query)
     = Some ''To Let''"
  by (simp_all add: detect_query_intent_and_amenities_def rent_query_def
      sale_filter_rent_query_def no_kwargs_def str_lower_def char_lower_def any_in_def
      transaction_keywords_def Let_def)

lemma rent_query_fields:
  "kw_transaction_type rent_query = None" "kw_max_price rent_query = None"
  "kw_min_price rent_query = None" "kw_rooms rent_query = None"
  "\<not> kw_near_schools rent_query" "\<not> kw_near_medical rent_query"
  "\<not> kw_has_parking rent_query" "\<not> kw_has_elevator rent_query"
  "\<not> kw_has_balcony rent_query" "kw_limit rent_query = None"
  by (simp_all add: rent_query_def no_kwargs_def)

lemma sale_filter_rent_query_fields:
  "kw_transaction_type sale_filter_rent_query = Some ''For Sale''"
  "kw_max_price sale_filter_rent_query = None"
  "kw_min_price sale_filter_rent_query = None" "kw_rooms sale_filter_rent_query = None"
  "\<not> kw_near_schools sale_filter_rent_query" "\<not> kw_near_medical sale_filter_rent_query"
  "\<not> kw_has_parking sale_filter_rent_query" "\<not> kw_has_elevator sale_filter_rent_query"
  "\<not> kw_has_balcony sale_filter_rent_query" "kw_limit sale_filter_rent_query = None"
  by (simp_all add: sale_filter_rent_query_def rent_query_def no_kwargs_def)

lemma filtered_pool_rent_query:
  "filtered_pool rent_query fallback_data = []"
  "filtered_pool sale_filter_rent_query fallback_data = fallback_data"
  by (simp_all add: filtered_pool_def run_blocks_def filter_blocks_def detect_rent_query
        rent_query_fields sale_filter_rent_query_fields
        truthy_str_def truthy_num_def fallback_data_def
        fix_boolean_cols_def fix_boolean_def py_str_bool_def str_lower_def char_lower_def Let_def)

lemma filters_rent_query:
  "block_descriptions (filter_blocks rent_query (detect_query_intent_and_amenities rent_query))
     = [AutoDetected ''To Let'']"
  "block_descriptions (filter_blocks sale_filter_rent_query
       (detect_query_intent_and_amenities sale_filter_rent_query))
     = [TransactionTypeFilter ''For Sale'']"
  by (simp_all add: block_descriptions_def filter_blocks_def detect_rent_query
        rent_query_fields sale_filter_rent_query_fields truthy_str_def truthy_num_def Let_def)

theorem explicit_transaction_type_overrides_detected_witness:
  "well_formed fallback_server fallback_store \<and>
   (\<forall>f. set (insertion_sort_values f) \<subseteq> set f) \<and>
   kw_transaction_type sale_filter_rent_query = Some ''For Sale'' \<and>
   detected_transaction (detect_query_intent_and_amenities sale_filter_rent_query)
     = Some ''To Let'' \<and>
   map transaction_type
     (properties (fst (search_properties insertion_sort_values 1743292800
                         fallback_server sale_filter_rent_query fallback_store)))
     = [''For Sale'', ''For Sale'', ''For Sale''] \<and>
   length (properties (fst (search_properties insertion_sort_values 1743292800
                              fallback_server sale_filter_rent_query fallback_store))) = 3 \<and>
   filters (fst (search_properties insertion_sort_values 1743292800
                   fallback_server sale_filter_rent_query fallback_store))
     = [TransactionTypeFilter ''For Sale''] \<and>
   \<not> truthy_str (kw_transaction_type rent_query) \<and>
   AutoDetected ''To Let''
     \<in> set (filters (fst (search_properties insertion_sort_values 1743292800
                            fallback_server rent_query fallback_store))) \<and>
   properties (fst (search_properties insertion_sort_values 1743292800
                      fallback_server rent_query fallback_store)) = []"
proof -
  note wf = well_formed_fallback
  note sv = insertion_sort_values_subset
  have e: "kw_transaction_type sale_filter_rent_query = Some ''For Sale'' \<and> ''For Sale'' \<noteq> []"
    by (simp add: sale_filter_rent_query_fields)
  have n: "\<not> truthy_str (kw_transaction_type rent_query)"
    by (simp add: rent_query_fields truthy_str_def)
  note lim = sale_filter_rent_query_fields(10) rent_query_fields(10)
  have rows: "\<forall>row \<in> set (properties (fst (search_properties insertion_sort_values 1743292800
                                   fallback_server sale_filter_rent_query fallback_store))).
      transaction_type row = ''For Sale''"
    using explicit_transaction_type_overrides_detected
            [OF wf sv, of sale_filter_rent_query 1743292800,
             THEN conjunct1, rule_format, OF e]
    by (rule conjunct1)
  have auto_filter: "AutoDetected ''To Let''
     \<in> set (filters (fst (search_properties insertion_sort_values 1743292800
                            fallback_server rent_query fallback_store)))"
    using explicit_transaction_type_overrides_detected
            [OF wf sv, of rent_query 1743292800,
             THEN conjunct2, rule_format, OF n detect_rent_query(1)]
    by simp
  have len: "length (properties (fst (search_properties insertion_sort_values 1743292800
                              fallback_server sale_filter_rent_query fallback_store))) = 3"
    by (simp add: search_properties_page[OF wf] dataset_fallback lim py_head_def
        length_insertion_sort_values scored_pool_eq filtered_pool_rent_query)
       (simp add: fallback_data_def)
  have fl: "filters (fst (search_properties insertion_sort_values 1743292800
                   fallback_server sale_filter_rent_query fallback_store))
     = [TransactionTypeFilter ''For Sale'']"
    by (simp only: search_properties_filters[OF wf] filters_rent_query)
  have none: "properties (fst (search_properties insertion_sort_values 1743292800
                      fallback_server rent_query fallback_store)) = []"
    by (simp add: search_properties_page[OF wf] dataset_fallback lim py_head_def
        insertion_sort_values_def scored_pool_eq filtered_pool_rent_query)
  obtain a b c where abc:
    "properties (fst (search_properties insertion_sort_values 1743292800
                        fallback_server sale_filter_rent_query fallback_store)) = [a, b, c]"
    using len by (auto simp: length_Suc_conv numeral_3_eq_3)
  have types: "map transaction_type
     (properties (fst (search_properties insertion_sort_values 1743292800
                         fallback_server sale_filter_rent_query fallback_store)))
     = [''For Sale'', ''For Sale'', ''For Sale'']"
    using rows unfolding abc by simp
  show ?thesis
    using wf sv e detect_rent_query(2) types len fl n auto_filter none
    by (simp only: simp_thms)
qed

subsection \<open>Unknown methods and lines that do not parse\<close>

lemma py_strip_samples:
  "py_strip oops_line = [0x6F, 0x6F, 0x70, 0x73]"
  "py_strip nbsp_line = []"
  "py_strip empty_object_line = [0x7B, 0x7D]"
  by (simp_all add: py_strip_def is_space_def oops_line_def nbsp_line_def empty_object_line_def)

lemma py_strip_line_feed:
  assumes "s \<noteq> []" "\<not> is_space (hd s)" "\<not> is_space (last s)"
  shows "py_strip (s @ [0x0A]) = s"
proof -
  have 1: "dropWhile is_space (s @ [0x0A]) = s @ [0x0A]"
    using assms(1,2) by (cases s) simp_all
  have "rev s \<noteq> []" "\<not> is_space (hd (rev s))" using assms(1,3) by (simp_all add: hd_rev)
  then have "dropWhile is_space (rev s) = rev s" by (cases "rev s") simp_all
  then show ?thesis by (simp add: py_strip_def 1 is_space_def)
qed

lemma deep_line_facts:
  "py_strip deep_line = replicate 100000 0x5B"
  "replicate 100000 (0x5B :: nat) \<noteq> []"
  "replicate 100000 (0x5B :: nat) \<noteq> [0x7B, 0x7D]"
  "[0x6F, 0x6F, 0x70, 0x73] \<noteq> replicate 100000 (0x5B :: nat)"
proof -
  let ?deep = "replicate 100000 (0x5B :: nat)"
  have len: "length ?deep = 100000" by simp
  show ne: "?deep \<noteq> []" by simp
  have "hd ?deep = 0x5B" "last ?deep = 0x5B"
    by simp_all
  then show "py_strip deep_line = ?deep"
    unfolding deep_line_def by (intro py_strip_line_feed ne) (simp_all add: is_space_def)
  show "?deep \<noteq> [0x7B, 0x7D]"
  proof
    assume "?deep = [0x7B, 0x7D]"
    from arg_cong[OF this, of length] len show False by simp
  qed
  show "[0x6F, 0x6F, 0x70, 0x73] \<noteq> ?deep"
  proof
    assume "[0x6F, 0x6F, 0x70, 0x73] = ?deep"
    from arg_cong[OF this, of length] len show False by simp
  qed
qed

text \<open>
  C7 as stated: every line that does not parse is answered with a parse error. A line of
  100000 opening brackets does not parse, \<^verbatim>\<open>json.loads\<close> raising \<^verbatim>\<open>RecursionError\<close>, which is
  no \<^verbatim>\<open>JSONDecodeError\<close>: the answer is the internal error -32603. A line that is only white
  space, here a NO-BREAK SPACE, is skipped without an answer. The loop goes on in both cases.
\<close>

theorem deep_nesting_is_an_internal_error:
  "main demo_externals fallback_server
     [(1743292800, deep_line), (1743292800, nbsp_line), (1743292800, empty_object_line)]
     fallback_store =
     ([Error IdNull (-32603)
         (''Internal error: maximum recursion depth exceeded while decoding ''
          @ ''a JSON array from a unicode string''),
       Error IdNull (-32601) ''Unknown method: ''],
      fallback_store)"
  by (simp add: deep_line_facts py_strip_samples demo_externals_def demo_json_loads_def
      handle_request_def handle_request_try_def error_text_def Let_def)

text \<open>
  C7 as the code has it: a request object whose method (the empty text when the key is
  absent) is none of \<^verbatim>\<open>initialize\<close>, \<^verbatim>\<open>notifications/initialized\<close>, \<^verbatim>\<open>tools/list\<close> and
  \<^verbatim>\<open>tools/call\<close> is answered with the error -32601 "Unknown method" under the identifier of
  the request, the store left as it was. A line that is empty once stripped is skipped. A
  line on which \<^verbatim>\<open>json.loads\<close> raises \<^verbatim>\<open>JSONDecodeError\<close> is answered with the error -32700
  "Parse error", and one on which it raises another exception with the error -32603
  "Internal error"; in each case the loop then handles the remaining lines exactly as it
  would have without that line.
\<close>

theorem unknown_method_and_parse_error:
  "((req_method req = Some m \<or> (req_method req = None \<and> m = [])) \<longrightarrow>
    m \<notin> {''initialize'', ''notifications/initialized'', ''tools/list'', ''tools/call''} \<longrightarrow>
      handle_request ext now self (Object req) st =
        (Inr (Error (req_id req) (-32601) (''Unknown method: '' @ m)), st)) \<and>
   (py_strip raw_line = [] \<longrightarrow>
      main ext self ((now, raw_line) # rest) st = main ext self rest st) \<and>
   (py_strip raw_line \<noteq> [] \<longrightarrow> json_loads ext (py_strip raw_line) = JSONDecodeError msg \<longrightarrow>
      main ext self ((now, raw_line) # rest) st =
        (Error IdNull (-32700) (''Parse error: '' @ msg) # fst (main ext self rest st),
         snd (main ext self rest st))) \<and>
   (py_strip raw_line \<noteq> [] \<longrightarrow> json_loads ext (py_strip raw_line) = LoadsRaises e \<longrightarrow>
      main ext self ((now, raw_line) # rest) st =
        (Error IdNull (-32603) (''Internal error: '' @ error_text e) # fst (main ext self rest st),
         snd (main ext self rest st)))"
proof (intro conjI impI)
  assume "req_method req = Some m \<or> (req_method req = None \<and> m = [])"
    and "m \<notin> {''initialize'', ''notifications/initialized'', ''tools/list'', ''tools/call''}"
  then have "handle_request_try ext now self req st =
        (Inr (Error (req_id req) (-32601) (''Unknown method: '' @ m)), st)"
    unfolding handle_request_try_def Let_def by auto
  then show "handle_request ext now self (Object req) st =
        (Inr (Error (req_id req) (-32601) (''Unknown method: '' @ m)), st)"
    by (simp add: handle_request_def)
next
  assume "py_strip raw_line = []"
  then show "main ext self ((now, raw_line) # rest) st = main ext self rest st"
    by (simp add: Let_def)
next
  assume "py_strip raw_line \<noteq> []" "json_loads ext (py_strip raw_line) = JSONDecodeError msg"
  then show "main ext self ((now, raw_line) # rest) st =
        (Error IdNull (-32700) (''Parse error: '' @ msg) # fst (main ext self rest st),
         snd (main ext self rest st))"
    by (simp add: Let_def split: prod.splits)
next
  assume "py_strip raw_line \<noteq> []" "json_loads ext (py_strip raw_line) = LoadsRaises e"
  then show "main ext self ((now, raw_line) # rest) st =
        (Error IdNull (-32603) (''Internal error: '' @ error_text e) # fst (main ext self rest st),
         snd (main ext self rest st))"
    by (simp add: Let_def split: prod.splits)
qed

theorem unknown_method_and_parse_error_witness:
  "py_strip oops_line = [0x6F, 0x6F, 0x70, 0x73] \<and>
   json_loads demo_externals [0x6F, 0x6F, 0x70, 0x73]
     = JSONDecodeError ''Expecting value: line 1 column 1 (char 0)'' \<and>
   py_strip nbsp_line = [] \<and>
   main demo_externals fallback_server
     [(1743292800, oops_line), (1743292800, nbsp_line), (1743292800, empty_object_line)]
     fallback_store =
     ([Error IdNull (-32700) ''Parse error: Expecting value: line 1 column 1 (char 0)'',
       Error IdNull (-32601) ''Unknown method: ''],
      fallback_store)"
proof -
  let ?req = "\<lparr> req_method = None, req_id = IdNull, req_params = None \<rparr>"
  let ?t = "1743292800 :: int"
  have loads: "json_loads demo_externals [0x6F, 0x6F, 0x70, 0x73]
                 = JSONDecodeError ''Expecting value: line 1 column 1 (char 0)''"
    "json_loads demo_externals [0x7B, 0x7D] = Loaded (Object ?req)"
    by (simp_all add: demo_externals_def demo_json_loads_def deep_line_facts)
  have unknown: "handle_request demo_externals ?t fallback_server (Object ?req) fallback_store
                 = (Inr (Error IdNull (-32601) ''Unknown method: ''), fallback_store)"
    using unknown_method_and_parse_error
            [where req = ?req and m = "[]" and ext = demo_externals and now = ?t
               and self = fallback_server and st = fallback_store,
             THEN conjunct1]
    by simp
  have last: "main demo_externals fallback_server [(?t, empty_object_line)] fallback_store
                = ([Error IdNull (-32601) ''Unknown method: ''], fallback_store)"
    by (simp add: py_strip_samples loads unknown Let_def)
  have skip: "main demo_externals fallback_server
                [(?t, nbsp_line), (?t, empty_object_line)] fallback_store
              = main demo_externals fallback_server [(?t, empty_object_line)] fallback_store"
    using unknown_method_and_parse_error
            [where raw_line = nbsp_line and ext = demo_externals and self = fallback_server
               and now = ?t and rest = "[(?t, empty_object_line)]" and st = fallback_store,
             THEN conjunct2, THEN conjunct1]
      py_strip_samples(2)
    by simp
  have "main demo_externals fallback_server
          ((?t, oops_line) # [(?t, nbsp_line), (?t, empty_object_line)]) fallback_store
        = (Error IdNull (-32700)
             (''Parse error: '' @ ''Expecting value: line 1 column 1 (char 0)'')
             # fst (main demo_externals fallback_server
                      [(?t, nbsp_line), (?t, empty_object_line)] fallback_store),
           snd (main demo_externals fallback_server
                  [(?t, nbsp_line), (?t, empty_object_line)] fallback_store))"
    using unknown_method_and_parse_error
            [where raw_line = oops_line and ext = demo_externals
               and msg = "''Expecting value: line 1 column 1 (char 0)''"
               and self = fallback_server and now = ?t
               and rest = "[(?t, nbsp_line), (?t, empty_object_line)]" and st = fallback_store,
             THEN conjunct2, THEN conjunct2, THEN conjunct1]
      py_strip_samples(1) loads(1)
    by simp
  then show ?thesis
    using py_strip_samples loads(1)
    by (simp only: skip last) simp
qed

end
